theory Spec2Isabelle
  imports Main
begin
section \<open>Server: session registry and per-channel call state (server/session.go)\<close>

text \<open>
  The server keeps, per channel, one persisted record (\<open>channelState\<close>) whose optional
  sub-record \<open>Call\<close> is the active call, and, per process, a registry of live sessions
  keyed by user identifier. \<open>addUserSession\<close> and \<open>removeUserSession\<close> first change the
  registry and then run a transform on the channel's record through
  \<open>kvSetAtomicChannelState\<close>.

  A Go \<open>map[string]struct{}\<close> carries no values, so \<open>Users\<close> is a set of user
  identifiers. A nil map is not told apart from an empty one: the only call state that
  \<open>session.go\<close> creates gets a map made with \<open>make\<close>, and a stored call has members.
  A Go \<open>error\<close> built by \<open>fmt.Errorf\<close> is its message; \<open>StoreConflict\<close> is the error
  of the store, which the spec names (see \<open>kvSetAtomicChannelState\<close> below).
\<close>

datatype go_error = Errorf string | StoreConflict

definition ChannelStateMissing :: go_error where
  "ChannelStateMissing = Errorf ''channel state is missing from store''"

definition CallStateMissing :: go_error where
  "CallStateMissing = Errorf ''call state is missing from channel state''"

definition wsChSize :: nat where
  "wsChSize = 10"

record callState =
  ID :: string
  StartAt :: int
  Users :: "string set"

text \<open>
  The declaration of \<open>channelState\<close> is outside the sources at hand; \<open>session.go\<close> reads
  and writes its field \<open>Call\<close> only. The record is therefore used at its extensible type
  \<open>'a channelState_scheme\<close>: the other fields are the extension \<open>'a\<close>, carried along
  unchanged, and the zero value of the extension is a parameter of the two operations.
\<close>

record channelState =
  Call :: "callState option"

definition zeroChannelState :: "'a \<Rightarrow> 'a channelState_scheme" where
  "zeroChannelState z = \<lparr>Call = None, \<dots> = z\<rparr>"

text \<open>
  A session: the two identifiers, the user's flags and the two buffered channels of
  capacity \<open>wsChSize\<close> (their queued messages). The connection and track pointers of the
  Go struct start as nil and are not touched by the functions modelled here.
\<close>

record session =
  userID :: string
  channelID :: string
  isMuted :: bool
  isSpeaking :: bool
  wsInCh :: "string list"
  wsOutCh :: "string list"

definition newUserSession :: "string \<Rightarrow> string \<Rightarrow> session" where
  "newUserSession uid cid =
     \<lparr>userID = uid, channelID = cid, isMuted = False, isSpeaking = False,
      wsInCh = [], wsOutCh = []\<rparr>"

text \<open>
  The plugin: the registry \<open>sessions\<close>, the key-value store of channel records \<open>kv\<close>
  (keyed by channel identifier) and the debug log (message and its key-value pairs).
\<close>

record 'a Plugin =
  sessions :: "string \<rightharpoonup> session"
  kv :: "string \<rightharpoonup> 'a channelState_scheme"
  debugLog :: "(string \<times> (string \<times> string) list) list"

definition LogDebug :: "string \<Rightarrow> (string \<times> string) list \<Rightarrow> 'a Plugin \<Rightarrow> 'a Plugin" where
  "LogDebug msg kvs p = p\<lparr>debugLog := debugLog p @ [(msg, kvs)]\<rparr>"

text \<open>
  The two transforms are the closures handed to \<open>kvSetAtomicChannelState\<close>. A closure
  receives the stored record (\<open>None\<close> for a nil pointer) and the current value of the
  captured variable \<open>st\<close>; it returns the Go pair (record or nil, error or nil) and the
  new value of \<open>st\<close>. \<open>newId\<close> and \<open>now\<close> are the results of \<open>model.NewId()\<close> and
  \<open>time.Now().UnixMilli()\<close>.
\<close>

definition addUserSession_tx ::
  "string \<Rightarrow> string \<Rightarrow> int \<Rightarrow> 'a channelState_scheme option \<Rightarrow> 'a channelState_scheme \<Rightarrow>
   ('a channelState_scheme option \<times> go_error option) \<times> 'a channelState_scheme" where
  "addUserSession_tx uid newId now state st =
     (case state of
        None \<Rightarrow> ((None, Some ChannelStateMissing), st)
      | Some state0 \<Rightarrow>
          let c = (case Call state0 of
                     None \<Rightarrow> \<lparr>ID = newId, StartAt = now, Users = {}\<rparr>
                   | Some c0 \<Rightarrow> c0);
              state1 = state0\<lparr>Call := Some (c\<lparr>Users := insert uid (Users c)\<rparr>)\<rparr>
          in ((Some state1, None), state1))"

definition removeUserSession_tx ::
  "string \<Rightarrow> 'a channelState_scheme option \<Rightarrow> 'a channelState_scheme \<Rightarrow>
   ('a channelState_scheme option \<times> go_error option) \<times> 'a channelState_scheme" where
  "removeUserSession_tx uid state st =
     (case state of
        None \<Rightarrow> ((None, Some ChannelStateMissing), st)
      | Some state0 \<Rightarrow>
          (case Call state0 of
             None \<Rightarrow> ((None, Some CallStateMissing), st)
           | Some c \<Rightarrow>
               let c1 = c\<lparr>Users := Users c - {uid}\<rparr>;
                   state1 = (if Users c1 = {} then state0\<lparr>Call := None\<rparr>
                             else state0\<lparr>Call := Some c1\<rparr>)
               in ((Some state1, None), state1)))"

text \<open>
  Modelled from the spec: \<open>kvSetAtomicChannelState\<close> is not among the sources at hand.
  The spec gives its contract: it reads the current record of the channel, applies the
  transform, and persists the transform's result only if the record still has the version
  read; on a version conflict it retries the read-modify-write, until it succeeds or a
  bounded number of retries is exhausted, and then it surfaces a \<open>StoreConflict\<close> error.

  What the other writers of the channel's record do is an input: \<open>writes\<close> lists, for
  each attempt that loses, the record that another writer has put in place between the
  read and the compare-and-set of that attempt (\<open>None\<close> when the record was removed);
  the attempt after the last of them meets no other writer. \<open>retries\<close> is the number of
  retries that are left. Each attempt reads the record and runs the transform on it,
  which assigns the captured variable. An error of the transform is returned at once and
  nothing is persisted. Otherwise, with no other writer, the returned record replaces
  the stored one; with another writer, the record is that writer's, and the attempt is
  repeated if a retry is left and gives \<open>StoreConflict\<close> if not. (A transform that
  returns neither a record nor an error does not occur in \<open>session.go\<close>; the model
  persists nothing of its own then.) With \<open>writes = []\<close> the transaction runs alone and
  the transform runs once.
\<close>

fun kvSetAtomicChannelState ::
  "nat \<Rightarrow> 'a channelState_scheme option list \<Rightarrow> string \<Rightarrow>
   ('a channelState_scheme option \<Rightarrow> 'c \<Rightarrow> ('a channelState_scheme option \<times> go_error option) \<times> 'c) \<Rightarrow>
   'c \<Rightarrow> 'a Plugin \<Rightarrow> (go_error option \<times> 'c) \<times> 'a Plugin" where
  "kvSetAtomicChannelState retries [] cid cb st p =
     (case cb (kv p cid) st of
        ((_, Some err), st') \<Rightarrow> ((Some err, st'), p)
      | ((None, None), st') \<Rightarrow> ((None, st'), p)
      | ((Some state', None), st') \<Rightarrow> ((None, st'), p\<lparr>kv := (kv p)(cid \<mapsto> state')\<rparr>))"
| "kvSetAtomicChannelState retries (w # writes) cid cb st p =
     (case cb (kv p cid) st of
        ((_, Some err), st') \<Rightarrow> ((Some err, st'), p)
      | ((_, None), st') \<Rightarrow>
          (case retries of
             0 \<Rightarrow> ((Some StoreConflict, st'), p\<lparr>kv := (kv p)(cid := w)\<rparr>)
           | Suc m \<Rightarrow> kvSetAtomicChannelState m writes cid cb st' (p\<lparr>kv := (kv p)(cid := w)\<rparr>)))"

text \<open>
  The two operations. \<open>z\<close> is the zero value of the fields of \<open>channelState\<close> other than
  \<open>Call\<close>, so that \<open>zeroChannelState z\<close> is Go's \<open>var st channelState\<close>; \<open>retries\<close> and
  \<open>writes\<close> are the store's retry bound and the other writers met by this transaction.
  The result is the Go pair (channelState, error) and the plugin afterwards. (\<open>newId\<close> and
  \<open>now\<close> stand for what \<open>model.NewId()\<close> and \<open>time.Now()\<close> return at each attempt of the
  transaction.)
\<close>

definition addUserSession ::
  "'a \<Rightarrow> nat \<Rightarrow> 'a channelState_scheme option list \<Rightarrow> string \<Rightarrow> int \<Rightarrow> string \<Rightarrow> string \<Rightarrow>
   session \<Rightarrow> 'a Plugin \<Rightarrow> ('a channelState_scheme \<times> go_error option) \<times> 'a Plugin" where
  "addUserSession z retries writes newId now uid cid userSession p =
     (let p1 = LogDebug ''adding session'' [(''UserID'', uid), (''ChannelID'', cid)] p;
          p2 = p1\<lparr>sessions := (sessions p1)(uid \<mapsto> userSession)\<rparr>;
          st = zeroChannelState z;
          ((err, st'), p3) =
            kvSetAtomicChannelState retries writes cid (addUserSession_tx uid newId now) st p2
      in ((st', err), p3))"

definition removeUserSession ::
  "'a \<Rightarrow> nat \<Rightarrow> 'a channelState_scheme option list \<Rightarrow> string \<Rightarrow> string \<Rightarrow> 'a Plugin \<Rightarrow>
   ('a channelState_scheme \<times> go_error option) \<times> 'a Plugin" where
  "removeUserSession z retries writes uid cid p =
     (let p1 = LogDebug ''removing session'' [(''UserID'', uid), (''ChannelID'', cid)] p;
          p2 = p1\<lparr>sessions := (sessions p1)(uid := None)\<rparr>;
          st = zeroChannelState z;
          ((err, st'), p3) =
            kvSetAtomicChannelState retries writes cid (removeUserSession_tx uid) st p2
      in ((st', err), p3))"

text \<open>
  A sequence of transactions, run in order; each comes with the retry bound and the
  other writers it meets. An operation that fails leaves its effect on the registry and
  the log in place, as the code does, and the run goes on.
\<close>

datatype 'a txn =
    AddUser nat "'a channelState_scheme option list" string int string string session
  | RemoveUser nat "'a channelState_scheme option list" string string

fun applyTxn :: "'a \<Rightarrow> 'a txn \<Rightarrow> 'a Plugin \<Rightarrow> 'a Plugin" where
  "applyTxn z (AddUser retries writes newId now uid cid userSession) p =
     snd (addUserSession z retries writes newId now uid cid userSession p)"
| "applyTxn z (RemoveUser retries writes uid cid) p = snd (removeUserSession z retries writes uid cid p)"

fun runTxns :: "'a \<Rightarrow> 'a txn list \<Rightarrow> 'a Plugin \<Rightarrow> 'a Plugin" where
  "runTxns z [] p = p"
| "runTxns z (t # ts) p = runTxns z ts (applyTxn z t p)"

fun txnWrites :: "'a txn \<Rightarrow> 'a channelState_scheme option list" where
  "txnWrites (AddUser retries writes newId now uid cid userSession) = writes"
| "txnWrites (RemoveUser retries writes uid cid) = writes"

text \<open>
  The members of a channel record: those of its call, none without a call. The
  invariant of a stored record: a call is present iff there are members.
\<close>

definition members :: "'a channelState_scheme \<Rightarrow> string set" where
  "members state = (case Call state of None \<Rightarrow> {} | Some c \<Rightarrow> Users c)"

definition callInv :: "'a channelState_scheme option \<Rightarrow> bool" where
  "callInv r = (case r of None \<Rightarrow> True | Some state \<Rightarrow> (Call state \<noteq> None) = (members state \<noteq> {}))"

subsection \<open>Two concrete plugins\<close>

text \<open>A plugin with one channel, \<open>general\<close>, in which user \<open>A\<close> is in a call.\<close>

definition demoPlugin :: "unit Plugin" where
  "demoPlugin = \<lparr>sessions = Map.empty,
     kv = [''general'' \<mapsto> \<lparr>Call = Some \<lparr>ID = ''call1'', StartAt = 1000, Users = {''A''}\<rparr>\<rparr>],
     debugLog = []\<rparr>"

text \<open>A plugin with one channel, \<open>general\<close>, whose record is initialised and has no call.\<close>

definition idlePlugin :: "unit Plugin" where
  "idlePlugin = \<lparr>sessions = Map.empty, kv = [''general'' \<mapsto> \<lparr>Call = None\<rparr>], debugLog = []\<rparr>"


section \<open>Client: the call session (class CallsClient)\<close>

text \<open>
  The client is a class whose methods mutate its fields and call external objects: the
  peer connection, the websocket client, the connection monitor, the browser's media
  devices and storage, and the listeners of the events it emits. The model passes the
  client's state explicitly. Every call on an external object is written, in order,
  to the trace \<open>fx\<close>; what such a call returns to the client is an input.

  An \<open>async\<close> method is modelled as running to its end without another callback in
  between: each \<open>await\<close> continues at once with the awaited result. The promises of the
  peer (\<open>addTrack\<close>, \<open>removeTrack\<close>, \<open>addStream\<close>) are taken to resolve; those of the
  browser (\<open>enumerateDevices\<close>, \<open>getUserMedia\<close>), which the code guards with
  \<open>try\<close>/\<open>catch\<close>, resolve or reject as the browser decides.
\<close>

subsection \<open>Errors, devices, tracks\<close>

text \<open>A JavaScript \<open>Error\<close> is its message.\<close>

datatype js_error = Error string

definition AudioInputPermissionsError :: js_error where
  "AudioInputPermissionsError = Error ''missing audio input permissions''"

definition AudioInputMissingError :: js_error where
  "AudioInputMissingError = Error ''no audio input available''"

definition rtcPeerErr :: js_error where
  "rtcPeerErr = Error ''rtc peer error''"

definition rtcPeerCloseErr :: js_error where
  "rtcPeerCloseErr = Error ''rtc peer close''"

text \<open>The error the runtime throws on a property access or a constructor argument that is undefined.\<close>

definition TypeError :: js_error where
  "TypeError = Error ''TypeError''"

fun errorText :: "js_error \<Rightarrow> string" where
  "errorText (Error m) = m"

datatype MediaDeviceKind = audioinput | audiooutput | videoinput

record MediaDeviceInfo =
  deviceId :: string
  label :: string
  kind :: MediaDeviceKind

record AudioDevices =
  inputs :: "MediaDeviceInfo list"
  outputs :: "MediaDeviceInfo list"

text \<open>
  A media track is an object shared between the streams that contain it and the fields
  of the client that point to it, so tracks live in a store keyed by track identifier
  and are referred to by identifier. The kind of a track is the field \<open>tkind\<close> (the
  source's \<open>kind\<close>, which here names the field of a device). The only \<open>onended\<close> handler
  the client installs is the closure of \<open>setScreenStream\<close>; it captures the screen
  track and the screen audio track, if any.
\<close>

datatype TrackKind = audio | video

datatype TrackState = live | ended

datatype handler = ScreenTrackEnded string "string option"

record MediaStreamTrack =
  tkind :: TrackKind
  enabled :: bool
  readyState :: TrackState
  onended :: "handler option"

subsection \<open>Storage, events and the trace\<close>

text \<open>
  The storage keys are constants of \<open>src/constants\<close>, which is outside the sources at
  hand; they are taken as three distinct keys. A stored preference is the text that
  \<open>getItem\<close> returns, seen through \<open>JSON.parse\<close>: the JSON of an object with a device
  identifier and possibly a label (\<open>StoredObject\<close>, what \<open>JSON.stringify(device)\<close> writes);
  or another JSON value, whose \<open>deviceId\<close> reads as undefined (\<open>StoredOther\<close>: a number, a
  string in quotes, a boolean, an array, an object without identifier; a bare identifier
  of earlier versions that consists of digits is read this way); or text that is not
  JSON (\<open>StoredRaw\<close>, the bare device identifier written by earlier versions; the empty
  text counts as no data). The JSON text \<open>null\<close>, on which the property access of
  \<open>getSelectedAudioDevice\<close> would throw, is left out: the client writes
  \<open>JSON.stringify\<close> of a device object, and earlier versions wrote a device identifier.
\<close>

datatype storage_key =
    STORAGE_CALLS_CLIENT_STATS_KEY
  | STORAGE_CALLS_DEFAULT_AUDIO_INPUT_KEY
  | STORAGE_CALLS_DEFAULT_AUDIO_OUTPUT_KEY

datatype stored = StoredObject string "string option" | StoredOther | StoredRaw string

datatype event =
    EvClose "js_error option"
  | EvDeviceChange AudioDevices
  | EvDeviceFallback MediaDeviceInfo
  | EvError js_error
  | EvInitAudio
  | EvMute
  | EvUnmute
  | EvLocalScreenStream string

fun eventName :: "event \<Rightarrow> string" where
  "eventName (EvClose _) = ''close''"
| "eventName (EvDeviceChange _) = ''devicechange''"
| "eventName (EvDeviceFallback _) = ''devicefallback''"
| "eventName (EvError _) = ''error''"
| "eventName EvInitAudio = ''initaudio''"
| "eventName EvMute = ''mute''"
| "eventName EvUnmute = ''unmute''"
| "eventName (EvLocalScreenStream _) = ''localScreenStream''"

datatype LogLevel = Debug | Info | Warn | Err

text \<open>
  The calls on external objects. \<open>Log\<close> carries the level of the logging function
  called (\<open>logDebug\<close>, \<open>logInfo\<close>, \<open>logWarn\<close>, \<open>logErr\<close>) and the message; further
  arguments of a log call (the objects printed after the message) are not recorded.
  \<open>WsSend\<close> carries the message type and, for \<open>screen_on\<close>, the stream identifier
  of its payload. \<open>PeerAddStream\<close> carries the stream and the codec option, if one is
  passed.
\<close>

datatype effect =
    Emit event
  | Log LogLevel string
  | WsSend string "string option"
  | WsClose
  | PeerGetStats
  | PeerDestroy
  | PeerReplaceTrack string "string option"
  | PeerAddTrack string string
  | PeerRemoveTrack string
  | PeerAddStream string "string option"
  | MonitorStop
  | MonitorClearCache

subsection \<open>The client's state\<close>

datatype RTCPeer = RTCPeer

datatype WebSocketClient = WebSocketClient

datatype RTCMonitor = RTCMonitor

record CallsClientConfig =
  enableAV1 :: bool

text \<open>
  The fields of the class that the modelled methods read or write, then the two object
  stores (\<open>tracks\<close>: the track of each identifier; \<open>streamTracks\<close>: the tracks of each
  stream), the browser's local storage, the trace, and the number of calls made to the
  browser so far.
\<close>

record CallsClient =
  config :: CallsClientConfig
  peer :: "RTCPeer option"
  ws :: "WebSocketClient option"
  localScreenTrack :: "string option"
  currentAudioInputDevice :: "MediaDeviceInfo option"
  currentAudioOutputDevice :: "MediaDeviceInfo option"
  voiceTrackAdded :: bool
  streams :: "string list"
  stream :: "string option"
  audioDevices :: AudioDevices
  audioTrack :: "string option"
  closed :: bool
  rtcMonitor :: "RTCMonitor option"
  av1Codec :: "string option"
  tracks :: "string \<Rightarrow> MediaStreamTrack"
  streamTracks :: "string \<Rightarrow> string list"
  localStorage :: "storage_key \<Rightarrow> stored option"
  fx :: "effect list"
  calls :: nat

text \<open>
  The browser: what the \<open>n\<close>-th call of the client to it returns. \<open>enumerateDevices\<close>
  gives the device list; \<open>getUserMedia\<close>, asked for audio from the device with the given
  exact identifier (or any device), gives a new stream and its one audio track.
\<close>

record Browser =
  enumerateDevices :: "nat \<Rightarrow> js_error + MediaDeviceInfo list"
  getUserMedia :: "nat \<Rightarrow> string option \<Rightarrow> js_error + (string \<times> string)"

text \<open>How a method ends: it returns, or it throws (an \<open>async\<close> method rejects).\<close>

datatype completion = Returned | Thrown js_error

subsection \<open>Small steps\<close>

definition do_fx :: "effect list \<Rightarrow> CallsClient \<Rightarrow> CallsClient" where
  "do_fx es s = s\<lparr>fx := fx s @ es\<rparr>"

definition emit :: "event \<Rightarrow> CallsClient \<Rightarrow> CallsClient" where
  "emit e s = do_fx [Emit e] s"

definition logDebug :: "string \<Rightarrow> CallsClient \<Rightarrow> CallsClient" where
  "logDebug m s = do_fx [Log Debug m] s"

definition logInfo :: "string \<Rightarrow> CallsClient \<Rightarrow> CallsClient" where
  "logInfo m s = do_fx [Log Info m] s"

definition logErr :: "string \<Rightarrow> CallsClient \<Rightarrow> CallsClient" where
  "logErr m s = do_fx [Log Err m] s"

definition track_stop :: "string \<Rightarrow> CallsClient \<Rightarrow> CallsClient" where
  "track_stop t s = s\<lparr>tracks := (tracks s)(t := (tracks s t)\<lparr>readyState := ended\<rparr>)\<rparr>"

definition set_enabled :: "string \<Rightarrow> bool \<Rightarrow> CallsClient \<Rightarrow> CallsClient" where
  "set_enabled t v s = s\<lparr>tracks := (tracks s)(t := (tracks s t)\<lparr>enabled := v\<rparr>)\<rparr>"

definition getAudioTracks :: "CallsClient \<Rightarrow> string \<Rightarrow> string list" where
  "getAudioTracks s sid = filter (\<lambda>t. tkind (tracks s t) = audio) (streamTracks s sid)"

definition getVideoTracks :: "CallsClient \<Rightarrow> string \<Rightarrow> string list" where
  "getVideoTracks s sid = filter (\<lambda>t. tkind (tracks s t) = video) (streamTracks s sid)"

text \<open>The stream and track that a resolved \<open>getUserMedia\<close> hands over: new objects in the stores.\<close>

definition newAudioStream :: "string \<Rightarrow> string \<Rightarrow> CallsClient \<Rightarrow> CallsClient" where
  "newAudioStream sid tid s =
     s\<lparr>tracks := (tracks s)(tid := \<lparr>tkind = audio, enabled = True, readyState = live, onended = None\<rparr>),
       streamTracks := (streamTracks s)(sid := [tid])\<rparr>"

text \<open>\<open>MediaStream.removeTrack\<close> and \<open>MediaStream.addTrack\<close> on the list of a stream's tracks.\<close>

definition stream_removeTrack :: "string \<Rightarrow> string \<Rightarrow> CallsClient \<Rightarrow> CallsClient" where
  "stream_removeTrack sid t s = s\<lparr>streamTracks := (streamTracks s)(sid := removeAll t (streamTracks s sid))\<rparr>"

definition stream_addTrack :: "string \<Rightarrow> string \<Rightarrow> CallsClient \<Rightarrow> CallsClient" where
  "stream_addTrack sid t s =
     (if t \<in> set (streamTracks s sid) then s
      else s\<lparr>streamTracks := (streamTracks s)(sid := streamTracks s sid @ [t])\<rparr>)"

text \<open>The events of a given name among the calls of a trace, in order.\<close>

fun emitted :: "string \<Rightarrow> effect list \<Rightarrow> event list" where
  "emitted name [] = []"
| "emitted name (Emit e # es) = (if eventName e = name then e # emitted name es else emitted name es)"
| "emitted name (_ # es) = emitted name es"

subsection \<open>Screen sharing\<close>

text \<open>
  The \<open>onended\<close> closure installed by \<open>setScreenStream\<close>, with its two captured
  variables, and the dispatch of an \<open>ended\<close> event to a track, which runs the track's
  handler if it has one.
\<close>

definition screenTrack_onended :: "string \<Rightarrow> string option \<Rightarrow> CallsClient \<Rightarrow> CallsClient" where
  "screenTrack_onended screenTrack screenAudioTrack s =
     (let s1 = (case screenAudioTrack of Some a \<Rightarrow> track_stop a s | None \<Rightarrow> s);
          s2 = s1\<lparr>localScreenTrack := None\<rparr>
      in if ws s2 = None \<or> peer s2 = None then s2
         else do_fx [PeerRemoveTrack screenTrack, WsSend ''screen_off'' None] s2)"

definition dispatchEnded :: "string \<Rightarrow> CallsClient \<Rightarrow> CallsClient" where
  "dispatchEnded t s =
     (case onended (tracks s t) of
        None \<Rightarrow> s
      | Some (ScreenTrackEnded screenTrack screenAudioTrack) \<Rightarrow>
          screenTrack_onended screenTrack screenAudioTrack s)"

text \<open>
  A track that ends by itself (the user stops the capture in the browser): the browser
  sets its state to ended and fires the event.
\<close>

definition trackEndedExternally :: "string \<Rightarrow> CallsClient \<Rightarrow> CallsClient" where
  "trackEndedExternally t s = dispatchEnded t (track_stop t s)"

text \<open>
  \<open>setScreenStream\<close>. The argument is a stream of the store, or null. \<open>newId\<close> is the
  identifier of the stream that \<open>new MediaStream\<close> creates. A stream without a video
  track makes \<open>screenTrack\<close> undefined, which the constructor rejects.
\<close>

definition setScreenStream :: "string \<Rightarrow> string option \<Rightarrow> CallsClient \<Rightarrow> completion \<times> CallsClient" where
  "setScreenStream newId screenStream s =
     (case screenStream of
        None \<Rightarrow> (Returned, s)
      | Some sid \<Rightarrow>
          if ws s = None \<or> peer s = None \<or> localScreenTrack s \<noteq> None then (Returned, s)
          else
            (case getVideoTracks s sid of
               [] \<Rightarrow> (Thrown TypeError, s\<lparr>localScreenTrack := None\<rparr>)
             | screenTrack # _ \<Rightarrow>
                 let s1 = s\<lparr>localScreenTrack := Some screenTrack\<rparr>;
                     screenAudioTrack = (case getAudioTracks s1 sid of [] \<Rightarrow> None | a # _ \<Rightarrow> Some a);
                     s2 = s1\<lparr>streamTracks := (streamTracks s1)
                             (newId := (case screenAudioTrack of
                                          Some a \<Rightarrow> [screenTrack, a]
                                        | None \<Rightarrow> [screenTrack]))\<rparr>;
                     s3 = s2\<lparr>streams := streams s2 @ [newId]\<rparr>;
                     s4 = s3\<lparr>tracks := (tracks s3)(screenTrack := (tracks s3 screenTrack)
                             \<lparr>onended := Some (ScreenTrackEnded screenTrack screenAudioTrack)\<rparr>)\<rparr>;
                     s5 = do_fx [Log Debug ''adding stream to peer'', PeerAddStream newId None] s4;
                     s6 = (if enableAV1 (config s5) \<and> av1Codec s5 \<noteq> None
                           then do_fx [Log Debug ''AV1 supported, sending track'',
                                       PeerAddStream newId (av1Codec s5)] s5
                           else s5);
                     s7 = do_fx [WsSend ''screen_on'' (Some newId)] s6
                 in (Returned, emit (EvLocalScreenStream newId) s7)))"

definition unshareScreen :: "CallsClient \<Rightarrow> CallsClient" where
  "unshareScreen s =
     (if ws s = None then s
      else case localScreenTrack s of
             None \<Rightarrow> s
           | Some t \<Rightarrow> (dispatchEnded t (track_stop t s))\<lparr>localScreenTrack := None\<rparr>)"

subsection \<open>Disconnecting\<close>

text \<open>
  \<open>cleanup\<close> stops every track of every stream of the list and dispatches \<open>ended\<close> to it.
\<close>

definition cleanup :: "CallsClient \<Rightarrow> CallsClient" where
  "cleanup s =
     fold (\<lambda>sid s1. fold (\<lambda>t s2. dispatchEnded t (track_stop t s2)) (streamTracks s1 sid) s1)
       (streams s) s"

text \<open>
  \<open>disconnect\<close>. With a peer, \<open>getStats()\<close> is started: it asks the peer for its
  statistics (the call \<open>PeerGetStats\<close>); what follows once that promise settles (the
  snapshot written to storage, or the failure logged) happens after \<open>disconnect\<close> has
  returned and is not part of its trace.
\<close>

definition disconnect :: "js_error option \<Rightarrow> CallsClient \<Rightarrow> CallsClient" where
  "disconnect err s =
     (let s0 = logDebug ''disconnect'' s in
      if closed s0 then logErr ''client already disconnected'' s0
      else
        let s1 = (if rtcMonitor s0 \<noteq> None then do_fx [MonitorStop] s0 else s0);
            s2 = s1\<lparr>closed := True\<rparr>;
            s3 = (if peer s2 \<noteq> None then (do_fx [PeerGetStats, PeerDestroy] s2)\<lparr>peer := None\<rparr> else s2);
            s4 = cleanup s3;
            s5 = (if ws s4 \<noteq> None then (do_fx [WsSend ''leave'' None, WsClose] s4)\<lparr>ws := None\<rparr> else s4)
        in emit (EvClose err) s5)"

subsection \<open>Muting\<close>

definition mute :: "CallsClient \<Rightarrow> CallsClient" where
  "mute s =
     (case (peer s, audioTrack s, stream s) of
        (Some _, Some t, Some _) \<Rightarrow>
          let s1 = do_fx [Log Debug ''replacing track to peer'', PeerReplaceTrack t None] s;
              s2 = set_enabled t False s1;
              s3 = emit EvMute s2
          in if ws s3 \<noteq> None then do_fx [WsSend ''mute'' None] s3 else s3
      | _ \<Rightarrow> s)"

subsection \<open>Audio devices\<close>

text \<open>
  The two conditional expressions on \<open>deviceType\<close> that select the devices and the
  current device of a kind (anything but \<open>input\<close> reads the output side, as in the
  source), and the persisted preference as \<open>getSelectedAudioDevice\<close> reads it: the
  device identifier (empty when nothing usable is stored) and the label, if any.
\<close>

definition devicesOf :: "string \<Rightarrow> CallsClient \<Rightarrow> MediaDeviceInfo list" where
  "devicesOf deviceType s =
     (if deviceType = ''input'' then inputs (audioDevices s) else outputs (audioDevices s))"

definition currentDeviceOf :: "string \<Rightarrow> CallsClient \<Rightarrow> MediaDeviceInfo option" where
  "currentDeviceOf deviceType s =
     (if deviceType = ''input'' then currentAudioInputDevice s else currentAudioOutputDevice s)"

definition storedSelection :: "string \<Rightarrow> CallsClient \<Rightarrow> string \<times> string option" where
  "storedSelection deviceType s =
     (let deviceKey = (if deviceType = ''input'' then STORAGE_CALLS_DEFAULT_AUDIO_INPUT_KEY
                       else STORAGE_CALLS_DEFAULT_AUDIO_OUTPUT_KEY)
      in case localStorage s deviceKey of
           None \<Rightarrow> ('''', None)
         | Some (StoredObject i l) \<Rightarrow> (i, l)
         | Some StoredOther \<Rightarrow> ('''', None)
         | Some (StoredRaw d) \<Rightarrow> (d, None))"

text \<open>
  \<open>getSelectedAudioDevice\<close> looks for the persisted preference among the enumerated
  devices. It returns the device or null, and logs what it found.
\<close>

definition getSelectedAudioDevice :: "string \<Rightarrow> CallsClient \<Rightarrow> MediaDeviceInfo option \<times> CallsClient" where
  "getSelectedAudioDevice deviceType s =
     (let (selId, selLabel) = storedSelection deviceType s
      in if selId = '''' then (None, s)
         else
           let devices = filter (\<lambda>dev. deviceId dev = selId \<or> Some (label dev) = selLabel)
                           (devicesOf deviceType s)
           in if length devices > 1
              then (find (\<lambda>dev. deviceId dev = selId) devices,
                    logInfo (''getSelectedAudioDevice: multiple audio '' @ deviceType @
                             '' devices found with the same label, checking by id'') s)
              else if length devices = 1
              then (Some (hd devices),
                    logDebug (''getSelectedAudioDevice: found selected audio '' @ deviceType @
                              '' device to use'') s)
              else (None,
                    logDebug (''getSelectedAudioDevice: audio '' @ deviceType @ '' device not found'') s))"

definition setAudioOutputDevice :: "MediaDeviceInfo \<Rightarrow> bool \<Rightarrow> CallsClient \<Rightarrow> CallsClient" where
  "setAudioOutputDevice device store s =
     (if peer s = None then s
      else
        let s1 = (if store
                  then s\<lparr>localStorage := (localStorage s)
                          (STORAGE_CALLS_DEFAULT_AUDIO_OUTPUT_KEY :=
                             Some (StoredObject (deviceId device) (Some (label device))))\<rparr>
                  else s);
            s2 = s1\<lparr>currentAudioOutputDevice := Some device\<rparr>
        in emit (EvDeviceChange (audioDevices s2)) s2)"

subsection \<open>Acquiring audio and following device changes\<close>

text \<open>
  \<open>initAudio\<close> calls \<open>updateDevices\<close>, which calls \<open>handleAudioDeviceFallback\<close>, which
  calls \<open>setAudioInputDevice\<close>, which calls \<open>initAudio\<close> again when there is no audio
  track yet. How often this repeats depends on what the browser returns each time.
  Each of the four bodies is therefore first written with the function it calls as its
  first argument (named after that function); the functions themselves are then tied
  together by recursion on a bound on the depth of nested \<open>initAudio\<close> calls. The
  result \<open>None\<close> says that the bound was reached.

  \<open>updateDevices\<close> catches every exception of its body and logs it; the three others
  may end by throwing.
\<close>

type_synonym run = "(completion \<times> CallsClient) option"

definition initAudio_body ::
  "(CallsClient \<Rightarrow> CallsClient option) \<Rightarrow> Browser \<Rightarrow> string option \<Rightarrow> CallsClient \<Rightarrow> run" where
  "initAudio_body updateDevices_rec b devId s =
     (let (selIn, s1) = getSelectedAudioDevice ''input'' s;
          exact = (case selIn of
                     Some d \<Rightarrow> Some (deviceId d)
                   | None \<Rightarrow> (case devId of
                                Some i \<Rightarrow> if i = '''' then None else Some i
                              | None \<Rightarrow> None));
          s2 = (case selIn of Some d \<Rightarrow> s1\<lparr>currentAudioInputDevice := Some d\<rparr> | None \<Rightarrow> s1);
          (selOut, s3) = getSelectedAudioDevice ''output'' s2;
          s4 = (case selOut of Some d \<Rightarrow> s3\<lparr>currentAudioOutputDevice := Some d\<rparr> | None \<Rightarrow> s3);
          thrown = (\<lambda>s'. if inputs (audioDevices s') \<noteq> [] then Thrown AudioInputPermissionsError
                         else Thrown AudioInputMissingError)
      in case getUserMedia b (calls s4) exact of
           Inl err \<Rightarrow>
             (let s5 = logErr (errorText err) (s4\<lparr>calls := Suc (calls s4)\<rparr>)
              in Some (thrown s5, s5))
         | Inr (sid, tid) \<Rightarrow>
             (case updateDevices_rec
                     ((newAudioStream sid tid (s4\<lparr>calls := Suc (calls s4)\<rparr>))\<lparr>stream := Some sid\<rparr>) of
                None \<Rightarrow> None
              | Some s5 \<Rightarrow>
                  (case stream s5 of
                     None \<Rightarrow> (let s6 = logErr (errorText TypeError) s5 in Some (thrown s6, s6))
                   | Some st \<Rightarrow>
                       (case getAudioTracks s5 st of
                          [] \<Rightarrow>
                            (let s6 = s5\<lparr>audioTrack := None, streams := streams s5 @ [st]\<rparr>;
                                 s7 = logErr (errorText TypeError) s6
                             in Some (thrown s7, s7))
                        | t # _ \<Rightarrow>
                            (let s6 = s5\<lparr>audioTrack := Some t, streams := streams s5 @ [st]\<rparr>;
                                 s7 = set_enabled t False s6
                             in Some (Returned, emit EvInitAudio s7))))))"

definition updateDevices_body ::
  "(string \<Rightarrow> CallsClient \<Rightarrow> run) \<Rightarrow> Browser \<Rightarrow> CallsClient \<Rightarrow> CallsClient option" where
  "updateDevices_body handleAudioDeviceFallback_rec b s =
     (let s0 = logDebug ''a/v device change detected'' s in
      case enumerateDevices b (calls s0) of
        Inl err \<Rightarrow> Some (logErr (errorText err) (s0\<lparr>calls := Suc (calls s0)\<rparr>))
      | Inr devices \<Rightarrow>
          (let s1 = s0\<lparr>calls := Suc (calls s0),
                       audioDevices := \<lparr>inputs = filter (\<lambda>device. kind device = audioinput) devices,
                                        outputs = filter (\<lambda>device. kind device = audiooutput) devices\<rparr>\<rparr>
           in case (if currentAudioInputDevice s1 \<noteq> None
                    then handleAudioDeviceFallback_rec ''input'' s1
                    else Some (Returned, s1)) of
                None \<Rightarrow> None
              | Some (Thrown err, s2) \<Rightarrow> Some (logErr (errorText err) s2)
              | Some (Returned, s2) \<Rightarrow>
                  (case (if currentAudioOutputDevice s2 \<noteq> None
                         then handleAudioDeviceFallback_rec ''output'' s2
                         else Some (Returned, s2)) of
                     None \<Rightarrow> None
                   | Some (Thrown err, s3) \<Rightarrow> Some (logErr (errorText err) s3)
                   | Some (Returned, s3) \<Rightarrow> Some (emit (EvDeviceChange (audioDevices s3)) s3))))"

text \<open>
  The branch on \<open>deviceType\<close> that hands the device to one of the two setters; it
  stands twice in \<open>handleAudioDeviceFallback\<close>.
\<close>

definition selectDevice ::
  "(MediaDeviceInfo \<Rightarrow> bool \<Rightarrow> CallsClient \<Rightarrow> run) \<Rightarrow> string \<Rightarrow> MediaDeviceInfo \<Rightarrow> CallsClient \<Rightarrow> run" where
  "selectDevice setAudioInputDevice_rec deviceType device s =
     (if deviceType = ''input'' then setAudioInputDevice_rec device False s
      else if deviceType = ''output'' then Some (Returned, setAudioOutputDevice device False s)
      else Some (Returned, s))"

definition handleAudioDeviceFallback_body ::
  "(MediaDeviceInfo \<Rightarrow> bool \<Rightarrow> CallsClient \<Rightarrow> run) \<Rightarrow> string \<Rightarrow> CallsClient \<Rightarrow> run" where
  "handleAudioDeviceFallback_body setAudioInputDevice_rec deviceType s =
     (let currentDevice = currentDeviceOf deviceType s;
          devices = devicesOf deviceType s;
          missingCurrentDevice =
            (\<not> list_ex (\<lambda>device. map_option deviceId currentDevice = Some (deviceId device)) devices)
      in case (if missingCurrentDevice then devices else []) of
           device0 # _ \<Rightarrow>
             (let s1 = logDebug (''selected audio '' @ deviceType @
                                 '' device not available, falling back to system default'') s
              in case selectDevice setAudioInputDevice_rec deviceType device0 s1 of
                   None \<Rightarrow> None
                 | Some (Thrown err, s2) \<Rightarrow> Some (Thrown err, s2)
                 | Some (Returned, s2) \<Rightarrow> Some (Returned, emit (EvDeviceFallback device0) s2))
         | [] \<Rightarrow>
             (let (selectedDevice, s1) = getSelectedAudioDevice deviceType s in
              case selectedDevice of
                None \<Rightarrow> Some (Returned, s1)
              | Some sel \<Rightarrow>
                  if Some (label sel) \<noteq> map_option label currentDevice
                  then
                    (let s2 = logDebug (''selected audio '' @ deviceType @ '' device is back, switching'') s1
                     in case selectDevice setAudioInputDevice_rec deviceType sel s2 of
                          None \<Rightarrow> None
                        | Some (Thrown err, s3) \<Rightarrow> Some (Thrown err, s3)
                        | Some (Returned, s3) \<Rightarrow> Some (Returned, emit (EvDeviceFallback sel) s3))
                  else Some (Returned, s1)))"

definition setAudioInputDevice_body ::
  "(string option \<Rightarrow> CallsClient \<Rightarrow> run) \<Rightarrow> Browser \<Rightarrow> MediaDeviceInfo \<Rightarrow> bool \<Rightarrow> CallsClient \<Rightarrow> run" where
  "setAudioInputDevice_body initAudio_rec b device store s =
     (if peer s = None then Some (Returned, s)
      else
        let s1 = (if store
                  then s\<lparr>localStorage := (localStorage s)
                          (STORAGE_CALLS_DEFAULT_AUDIO_INPUT_KEY :=
                             Some (StoredObject (deviceId device) (Some (label device))))\<rparr>
                  else s);
            s2 = s1\<lparr>currentAudioInputDevice := Some device\<rparr>;
            s3 = emit (EvDeviceChange (audioDevices s2)) s2
        in case (audioTrack s3, stream s3) of
             (Some oldTrack, Some st) \<Rightarrow>
               (let isEnabled = enabled (tracks s3 oldTrack);
                    s4 = track_stop oldTrack s3
                in case getUserMedia b (calls s4) (Some (deviceId device)) of
                     Inl err \<Rightarrow> Some (Thrown err, s4\<lparr>calls := Suc (calls s4)\<rparr>)
                   | Inr (sid, newTrack) \<Rightarrow>
                       (let s5 = newAudioStream sid newTrack (s4\<lparr>calls := Suc (calls s4)\<rparr>);
                            s6 = s5\<lparr>streams := streams s5 @ [sid]\<rparr>;
                            s7 = stream_addTrack st newTrack (stream_removeTrack st oldTrack s6);
                            s8 = set_enabled newTrack isEnabled s7;
                            s9 = (if isEnabled
                                  then (if voiceTrackAdded s8
                                        then do_fx [Log Debug ''replacing track to peer'',
                                                    PeerReplaceTrack oldTrack (Some newTrack)] s8
                                        else do_fx [Log Debug ''adding track to peer'',
                                                    PeerAddTrack newTrack st] s8)
                                  else s8\<lparr>voiceTrackAdded := False\<rparr>)
                        in Some (Returned, s9\<lparr>audioTrack := Some newTrack\<rparr>)))
           | _ \<Rightarrow> initAudio_rec (Some (deviceId device)) s3)"

primrec initAudio :: "nat \<Rightarrow> Browser \<Rightarrow> string option \<Rightarrow> CallsClient \<Rightarrow> run" where
  "initAudio 0 b = (\<lambda>devId s. None)"
| "initAudio (Suc n) b =
     initAudio_body
       (updateDevices_body
          (handleAudioDeviceFallback_body (setAudioInputDevice_body (initAudio n b) b)) b) b"

definition setAudioInputDevice :: "nat \<Rightarrow> Browser \<Rightarrow> MediaDeviceInfo \<Rightarrow> bool \<Rightarrow> CallsClient \<Rightarrow> run" where
  "setAudioInputDevice n b = setAudioInputDevice_body (initAudio n b) b"

definition handleAudioDeviceFallback :: "nat \<Rightarrow> Browser \<Rightarrow> string \<Rightarrow> CallsClient \<Rightarrow> run" where
  "handleAudioDeviceFallback n b = handleAudioDeviceFallback_body (setAudioInputDevice n b)"

definition updateDevices :: "nat \<Rightarrow> Browser \<Rightarrow> CallsClient \<Rightarrow> CallsClient option" where
  "updateDevices n b = updateDevices_body (handleAudioDeviceFallback n b) b"

subsection \<open>Unmuting\<close>

definition unmute :: "nat \<Rightarrow> Browser \<Rightarrow> CallsClient \<Rightarrow> run" where
  "unmute n b s =
     (if peer s = None then Some (Returned, s)
      else
        case (if audioTrack s = None then initAudio n b None s else Some (Returned, s)) of
          None \<Rightarrow> None
        | Some (Thrown err, s1) \<Rightarrow> Some (Returned, emit (EvError err) s1)
        | Some (Returned, s1) \<Rightarrow>
            (let s2 = (if rtcMonitor s1 \<noteq> None then do_fx [MonitorClearCache] s1 else s1);
                 s3 = (case audioTrack s2 of
                         None \<Rightarrow> s2
                       | Some t \<Rightarrow>
                           set_enabled t True
                             (if voiceTrackAdded s2
                              then do_fx [Log Debug ''replacing track to peer'',
                                          PeerReplaceTrack t (Some t)] s2
                              else (case stream s2 of
                                      Some st \<Rightarrow>
                                        (do_fx [Log Debug ''adding track to peer'', PeerAddTrack t st] s2)
                                          \<lparr>voiceTrackAdded := True\<rparr>
                                    | None \<Rightarrow> s2)));
                 s4 = emit EvUnmute s3
             in Some (Returned, if ws s4 \<noteq> None then do_fx [WsSend ''unmute'' None] s4 else s4)))"

subsection \<open>The rule of the automatic selection, written out\<close>

text \<open>
  The two functions below are not taken from the code: they write out, as functions of
  the client state, the rule that the property on the device fallback states, so that
  the property can compare what \<open>updateDevices\<close> does with it.

  \<open>persistedDevice\<close> is the enumerated device that the persisted preference of a kind
  designates: the first enumerated device with the persisted identifier if there is
  one; otherwise the device with the persisted label if exactly one enumerated device
  has it; otherwise none.

  \<open>fallbackTarget\<close> is the device that the automatic selection of a kind moves to, if
  any. Without a current device of the kind there is none. If the identifier of the
  current device is not enumerated and some device of the kind is, it is the first
  enumerated device of the kind. Otherwise it is the persisted device, provided that it
  is found and that its label differs from the label of the current device.
\<close>

definition persistedDevice :: "string \<Rightarrow> CallsClient \<Rightarrow> MediaDeviceInfo option" where
  "persistedDevice deviceType s =
     (case storedSelection deviceType s of
        (selId, selLabel) \<Rightarrow>
          if selId = '''' then None
          else case find (\<lambda>d. deviceId d = selId) (devicesOf deviceType s) of
                 Some d \<Rightarrow> Some d
               | None \<Rightarrow> (case filter (\<lambda>d. Some (label d) = selLabel) (devicesOf deviceType s) of
                            [d] \<Rightarrow> Some d
                          | _ \<Rightarrow> None))"

definition fallbackTarget :: "string \<Rightarrow> CallsClient \<Rightarrow> MediaDeviceInfo option" where
  "fallbackTarget deviceType s =
     (case currentDeviceOf deviceType s of
        None \<Rightarrow> None
      | Some c \<Rightarrow>
          if deviceId c \<notin> deviceId ` set (devicesOf deviceType s) \<and> devicesOf deviceType s \<noteq> []
          then Some (hd (devicesOf deviceType s))
          else (case persistedDevice deviceType s of
                  None \<Rightarrow> None
                | Some d \<Rightarrow> if label d \<noteq> label c then Some d else None))"

text \<open>
  The client state right after \<open>updateDevices\<close> has enumerated \<open>devices\<close>, apart from its
  trace and its count of browser calls.
\<close>

definition withDevices :: "MediaDeviceInfo list \<Rightarrow> CallsClient \<Rightarrow> CallsClient" where
  "withDevices devices s =
     s\<lparr>audioDevices := \<lparr>inputs = filter (\<lambda>device. kind device = audioinput) devices,
                         outputs = filter (\<lambda>device. kind device = audiooutput) devices\<rparr>\<rparr>"

subsection \<open>The constructor and some concrete clients\<close>

text \<open>
  The state the constructor leaves: no websocket, no peer, no tracks, no devices. The
  stores hold no object the client knows of; an unknown identifier reads as an ended
  track and as a stream without tracks.
\<close>

definition newCallsClient :: "CallsClientConfig \<Rightarrow> CallsClient" where
  "newCallsClient cfg =
     \<lparr>config = cfg, peer = None, ws = None, localScreenTrack = None,
      currentAudioInputDevice = None, currentAudioOutputDevice = None,
      voiceTrackAdded = False, streams = [], stream = None,
      audioDevices = \<lparr>inputs = [], outputs = []\<rparr>, audioTrack = None, closed = False,
      rtcMonitor = None, av1Codec = None,
      tracks = (\<lambda>_. \<lparr>tkind = audio, enabled = False, readyState = ended, onended = None\<rparr>),
      streamTracks = (\<lambda>_. []),
      localStorage = (\<lambda>_. None),
      fx = [], calls = 0\<rparr>"

definition builtinMic :: MediaDeviceInfo where
  "builtinMic = \<lparr>deviceId = ''mic-1'', label = ''Built-in Microphone'', kind = audioinput\<rparr>"

definition usbMic :: MediaDeviceInfo where
  "usbMic = \<lparr>deviceId = ''mic-2'', label = ''USB Headset'', kind = audioinput\<rparr>"

definition usbMicTwin :: MediaDeviceInfo where
  "usbMicTwin = \<lparr>deviceId = ''mic-3'', label = ''USB Headset'', kind = audioinput\<rparr>"

definition speakers :: MediaDeviceInfo where
  "speakers = \<lparr>deviceId = ''out-1'', label = ''Speakers'', kind = audiooutput\<rparr>"

definition headphones :: MediaDeviceInfo where
  "headphones = \<lparr>deviceId = ''out-2'', label = ''USB Headset'', kind = audiooutput\<rparr>"

text \<open>
  A client in a call: websocket, peer and monitor exist; the microphone track \<open>mic\<close> of
  the stream \<open>mic-stream\<close> was acquired and is muted; the USB headset is the selected
  and persisted device for input and output. The store also holds a captured screen
  (stream \<open>capture\<close> with a video and an audio track), not yet shared.
\<close>

definition connectedClient :: CallsClient where
  "connectedClient =
     (newCallsClient \<lparr>enableAV1 = False\<rparr>)
       \<lparr>peer := Some RTCPeer, ws := Some WebSocketClient, rtcMonitor := Some RTCMonitor,
        currentAudioInputDevice := Some usbMic, currentAudioOutputDevice := Some headphones,
        streams := [''mic-stream''], stream := Some ''mic-stream'', audioTrack := Some ''mic'',
        audioDevices := \<lparr>inputs = [builtinMic, usbMic], outputs = [speakers, headphones]\<rparr>,
        tracks := (\<lambda>t. if t = ''mic''
                        then \<lparr>tkind = audio, enabled = False, readyState = live, onended = None\<rparr>
                        else if t = ''screen-video''
                        then \<lparr>tkind = video, enabled = True, readyState = live, onended = None\<rparr>
                        else if t = ''screen-audio''
                        then \<lparr>tkind = audio, enabled = True, readyState = live, onended = None\<rparr>
                        else \<lparr>tkind = audio, enabled = False, readyState = ended, onended = None\<rparr>),
        streamTracks := (\<lambda>sid. if sid = ''mic-stream'' then [''mic'']
                               else if sid = ''capture'' then [''screen-video'', ''screen-audio'']
                               else []),
        localStorage := (\<lambda>k. if k = STORAGE_CALLS_DEFAULT_AUDIO_INPUT_KEY
                              then Some (StoredObject ''mic-2'' (Some ''USB Headset''))
                              else if k = STORAGE_CALLS_DEFAULT_AUDIO_OUTPUT_KEY
                              then Some (StoredObject ''out-2'' (Some ''USB Headset''))
                              else None)\<rparr>"

text \<open>The same client before the join acknowledgement: audio acquired, no peer yet.\<close>

definition joiningClient :: CallsClient where
  "joiningClient = connectedClient\<lparr>peer := None, rtcMonitor := None\<rparr>"

text \<open>A browser that enumerates the given devices and hands out the stream \<open>s\<close>\<open>n\<close> with track \<open>t\<close>\<open>n\<close> at call \<open>n\<close>.\<close>

definition steadyBrowser :: "MediaDeviceInfo list \<Rightarrow> Browser" where
  "steadyBrowser devices =
     \<lparr>enumerateDevices = (\<lambda>n. Inr devices),
      getUserMedia = (\<lambda>n exact. Inr (''s'' @ replicate n CHR ''+'', ''t'' @ replicate n CHR ''+''))\<rparr>"

text \<open>The connected client after it has shared the captured screen.\<close>

definition sharingClient :: CallsClient where
  "sharingClient = snd (setScreenStream ''shared'' (Some ''capture'') connectedClient)"

text \<open>The connected client while it talks: the microphone track has been added to the peer and is enabled.\<close>

definition talkingClient :: CallsClient where
  "talkingClient =
     connectedClient
       \<lparr>voiceTrackAdded := True,
        tracks := (tracks connectedClient)
          (''mic'' := \<lparr>tkind = audio, enabled = True, readyState = live, onended = None\<rparr>)\<rparr>"

text \<open>
  Device situations of the connected client. The headset is plugged in again after the
  built-in devices had taken over.
\<close>

definition repluggedClient :: CallsClient where
  "repluggedClient =
     connectedClient\<lparr>currentAudioInputDevice := Some builtinMic, currentAudioOutputDevice := Some speakers\<rparr>"

text \<open>
  Two headsets of the same model: the persisted one (\<open>out-2\<close>) is enumerated again while
  its twin (\<open>out-3\<close>, same label) is the current output device.
\<close>

definition headphonesTwin :: MediaDeviceInfo where
  "headphonesTwin = \<lparr>deviceId = ''out-3'', label = ''USB Headset'', kind = audiooutput\<rparr>"

definition twinClient :: CallsClient where
  "twinClient =
     connectedClient\<lparr>currentAudioOutputDevice := Some headphonesTwin,
                     audioDevices := \<lparr>inputs = [builtinMic, usbMic], outputs = [headphonesTwin, headphones]\<rparr>\<rparr>"

text \<open>A browser that enumerates the built-in devices only and refuses every capture.\<close>

definition refusingBrowser :: Browser where
  "refusingBrowser =
     \<lparr>enumerateDevices = (\<lambda>n. Inr [builtinMic, speakers]),
      getUserMedia = (\<lambda>n exact. Inl (Error ''NotAllowedError''))\<rparr>"

text \<open>
  A connected client that never got an audio track (the first capture had failed). The
  built-in microphone had taken over from the persisted headset and is now gone, while
  a webcam microphone and the headset are enumerated.
\<close>

definition webcamMic :: MediaDeviceInfo where
  "webcamMic = \<lparr>deviceId = ''mic-4'', label = ''Webcam'', kind = audioinput\<rparr>"

definition noTrackClient :: CallsClient where
  "noTrackClient =
     connectedClient\<lparr>audioTrack := None, stream := None, streams := [],
                     currentAudioInputDevice := Some builtinMic,
                     audioDevices := \<lparr>inputs = [webcamMic, usbMic], outputs = [speakers, headphones]\<rparr>\<rparr>"
section \<open>Server: properties of the call state\<close>

subsection \<open>What the two operations compute\<close>

lemma addUserSession_eq:
  "addUserSession z n [] nid now uid cid us p =
    (case kv p cid of
       None \<Rightarrow> ((zeroChannelState z, Some ChannelStateMissing),
                 p\<lparr>sessions := (sessions p)(uid \<mapsto> us),
                   debugLog := debugLog p @ [(''adding session'', [(''UserID'', uid), (''ChannelID'', cid)])]\<rparr>)
     | Some state \<Rightarrow>
         (let c = (case Call state of None \<Rightarrow> \<lparr>ID = nid, StartAt = now, Users = {}\<rparr> | Some c0 \<Rightarrow> c0);
              state1 = state\<lparr>Call := Some (c\<lparr>Users := insert uid (Users c)\<rparr>)\<rparr>
          in ((state1, None),
              p\<lparr>sessions := (sessions p)(uid \<mapsto> us),
                kv := (kv p)(cid \<mapsto> state1),
                debugLog := debugLog p @ [(''adding session'', [(''UserID'', uid), (''ChannelID'', cid)])]\<rparr>)))"
  by (simp add: addUserSession_def addUserSession_tx_def LogDebug_def Let_def
           split: option.splits)

lemma removeUserSession_eq:
  "removeUserSession z n [] uid cid p =
    (let p' = p\<lparr>sessions := (sessions p)(uid := None),
                debugLog := debugLog p @ [(''removing session'', [(''UserID'', uid), (''ChannelID'', cid)])]\<rparr>
     in case kv p cid of
       None \<Rightarrow> ((zeroChannelState z, Some ChannelStateMissing), p')
     | Some state \<Rightarrow>
        (case Call state of
           None \<Rightarrow> ((zeroChannelState z, Some CallStateMissing), p')
         | Some c \<Rightarrow>
            (let state1 = (if Users c - {uid} = {} then state\<lparr>Call := None\<rparr>
                           else state\<lparr>Call := Some (c\<lparr>Users := Users c - {uid}\<rparr>)\<rparr>)
             in ((state1, None), p'\<lparr>kv := (kv p)(cid \<mapsto> state1)\<rparr>))))"
  by (simp add: removeUserSession_def removeUserSession_tx_def LogDebug_def Let_def
           split: option.splits)

lemma kvSet_transform_error:
  "cb (kv p cid) st = ((r, Some err), st') \<Longrightarrow>
   kvSetAtomicChannelState n wr cid cb st p = ((Some err, st'), p)"
  by (cases wr) (simp_all split: option.splits)

lemma addUserSession_missing:
  "kv p cid = None \<Longrightarrow>
   addUserSession z n wr nid now uid cid us p =
     ((zeroChannelState z, Some ChannelStateMissing),
      p\<lparr>sessions := (sessions p)(uid \<mapsto> us),
        debugLog := debugLog p @ [(''adding session'', [(''UserID'', uid), (''ChannelID'', cid)])]\<rparr>)"
  by (simp add: addUserSession_def LogDebug_def Let_def
        kvSet_transform_error [where r = None and err = ChannelStateMissing and st' = "zeroChannelState z"]
        addUserSession_tx_def)

lemma removeUserSession_missing:
  "kv p cid = None \<Longrightarrow>
   removeUserSession z n wr uid cid p =
     ((zeroChannelState z, Some ChannelStateMissing),
      p\<lparr>sessions := (sessions p)(uid := None),
        debugLog := debugLog p @ [(''removing session'', [(''UserID'', uid), (''ChannelID'', cid)])]\<rparr>)"
  by (simp add: removeUserSession_def LogDebug_def Let_def
        kvSet_transform_error [where r = None and err = ChannelStateMissing and st' = "zeroChannelState z"]
        removeUserSession_tx_def)

lemma removeUserSession_no_call:
  "kv p cid = Some state \<Longrightarrow> Call state = None \<Longrightarrow>
   removeUserSession z n wr uid cid p =
     ((zeroChannelState z, Some CallStateMissing),
      p\<lparr>sessions := (sessions p)(uid := None),
        debugLog := debugLog p @ [(''removing session'', [(''UserID'', uid), (''ChannelID'', cid)])]\<rparr>)"
  by (simp add: removeUserSession_def LogDebug_def Let_def
        kvSet_transform_error [where r = None and err = CallStateMissing and st' = "zeroChannelState z"]
        removeUserSession_tx_def)

lemma errors_distinct: "ChannelStateMissing \<noteq> CallStateMissing"
  by (simp add: ChannelStateMissing_def CallStateMissing_def)

subsection \<open>The invariant is kept by every transaction\<close>

lemma kvSet_frame:
  "sessions (snd (kvSetAtomicChannelState n wr cid cb st p)) = sessions p \<and>
   debugLog (snd (kvSetAtomicChannelState n wr cid cb st p)) = debugLog p \<and>
   (\<forall>c. c \<noteq> cid \<longrightarrow> kv (snd (kvSetAtomicChannelState n wr cid cb st p)) c = kv p c)"
  by (induction wr arbitrary: n st p) (simp_all split: prod.splits option.splits nat.splits)

lemma callInv_kvSet:
  assumes cb: "\<And>r st r' st'. callInv r \<Longrightarrow> cb r st = ((Some r', None), st') \<Longrightarrow> callInv (Some r')"
  shows "callInv (kv p cid) \<Longrightarrow> \<forall>w\<in>set wr. callInv w \<Longrightarrow>
         callInv (kv (snd (kvSetAtomicChannelState n wr cid cb st p)) cid)"
proof (induction wr arbitrary: n st p)
  case Nil
  then show ?case
    using cb [of "kv p cid" st] by (simp split: prod.splits option.splits)
next
  case (Cons w wr)
  then show ?case
    by (simp split: prod.splits option.splits nat.splits)
qed

lemma callInv_add_tx:
  "callInv r \<Longrightarrow> addUserSession_tx uid nid now r st = ((Some r', None), st') \<Longrightarrow> callInv (Some r')"
  by (auto simp: addUserSession_tx_def callInv_def members_def Let_def split: option.splits)

lemma callInv_remove_tx:
  assumes "callInv r" and tx: "removeUserSession_tx uid r st = ((Some r', None), st')"
  shows "callInv (Some r')"
proof (cases r)
  case None
  with tx show ?thesis
    by (simp add: removeUserSession_tx_def)
next
  case (Some state)
  show ?thesis
  proof (cases "Call state")
    case None
    with Some tx show ?thesis
      by (simp add: removeUserSession_tx_def)
  next
    case c: (Some c)
    show ?thesis
    proof (cases "Users c - {uid} = {}")
      case True
      with Some c tx show ?thesis
        by (auto simp: removeUserSession_tx_def callInv_def members_def Let_def)
    next
      case False
      with Some c tx have "r' = state\<lparr>Call := Some (c\<lparr>Users := Users c - {uid}\<rparr>)\<rparr>"
        by (simp add: removeUserSession_tx_def Let_def)
      with False show ?thesis
        by (simp add: callInv_def members_def)
    qed
  qed
qed

lemma addUserSession_unfold:
  "addUserSession z n wr nid now uid cid us p =
     (let r = kvSetAtomicChannelState n wr cid (addUserSession_tx uid nid now) (zeroChannelState z)
                ((LogDebug ''adding session'' [(''UserID'', uid), (''ChannelID'', cid)] p)
                   \<lparr>sessions := (sessions p)(uid \<mapsto> us)\<rparr>)
      in ((snd (fst r), fst (fst r)), snd r))"
  by (simp add: addUserSession_def Let_def split_beta LogDebug_def)

lemma removeUserSession_unfold:
  "removeUserSession z n wr uid cid p =
     (let r = kvSetAtomicChannelState n wr cid (removeUserSession_tx uid) (zeroChannelState z)
                ((LogDebug ''removing session'' [(''UserID'', uid), (''ChannelID'', cid)] p)
                   \<lparr>sessions := (sessions p)(uid := None)\<rparr>)
      in ((snd (fst r), fst (fst r)), snd r))"
  by (simp add: removeUserSession_def Let_def split_beta LogDebug_def)

lemma callInv_add:
  assumes "callInv (kv p c)" and "\<forall>w\<in>set wr. callInv w"
  shows "callInv (kv (snd (addUserSession z n wr nid now uid cid us p)) c)"
proof (cases "c = cid")
  case True
  show ?thesis
    unfolding addUserSession_unfold Let_def snd_conv True
    by (rule callInv_kvSet [OF callInv_add_tx]) (insert assms True, simp_all add: LogDebug_def)
next
  case False
  then show ?thesis
    unfolding addUserSession_unfold Let_def snd_conv using assms(1)
    by (simp add: kvSet_frame LogDebug_def)
qed

lemma callInv_remove:
  assumes "callInv (kv p c)" and "\<forall>w\<in>set wr. callInv w"
  shows "callInv (kv (snd (removeUserSession z n wr uid cid p)) c)"
proof (cases "c = cid")
  case True
  show ?thesis
    unfolding removeUserSession_unfold Let_def snd_conv True
    by (rule callInv_kvSet [OF callInv_remove_tx]) (insert assms True, simp_all add: LogDebug_def)
next
  case False
  then show ?thesis
    unfolding removeUserSession_unfold Let_def snd_conv using assms(1)
    by (simp add: kvSet_frame LogDebug_def)
qed

lemma callInv_applyTxn:
  "callInv (kv p c) \<Longrightarrow> \<forall>w\<in>set (txnWrites t). callInv w \<Longrightarrow> callInv (kv (applyTxn z t p) c)"
  by (cases t) (simp_all add: callInv_add callInv_remove)

lemma callInv_runTxns:
  "callInv (kv p c) \<Longrightarrow> \<forall>t\<in>set ts. \<forall>w\<in>set (txnWrites t). callInv w \<Longrightarrow>
   callInv (kv (runTxns z ts p) c)"
  by (induction ts arbitrary: p) (simp_all add: callInv_applyTxn)

lemma kvSet_add_ok:
  "kvSetAtomicChannelState n wr cid (addUserSession_tx uid nid now) st p = ((None, st'), p') \<Longrightarrow>
   kv p' cid = Some st' \<and> Call st' \<noteq> None \<and> uid \<in> members st'"
proof (induction wr arbitrary: n st p)
  case Nil
  then show ?case
    by (auto simp: addUserSession_tx_def members_def Let_def split: option.splits)
next
  case (Cons w wr)
  then show ?case
    by (auto simp: addUserSession_tx_def Let_def split: option.splits nat.splits)
qed

lemma kvSet_remove_ok:
  "kvSetAtomicChannelState n wr cid (removeUserSession_tx uid) st p = ((None, st'), p') \<Longrightarrow>
   callInv (kv p cid) \<Longrightarrow> \<forall>w\<in>set wr. callInv w \<Longrightarrow>
   kv p' cid = Some st' \<and>
   (\<exists>st0. last (kv p cid # wr) = Some st0 \<and> members st' = members st0 - {uid} \<and>
          (Call st' = None) = (members st0 = {uid}))"
proof (induction wr arbitrary: n st p)
  case Nil
  from Nil.prems(1) obtain st0 c where st0: "kv p cid = Some st0" and c: "Call st0 = Some c"
    by (auto simp: removeUserSession_tx_def Let_def split: option.splits)
  from Nil.prems(2) st0 c have ne: "Users c \<noteq> {}"
    by (simp add: callInv_def members_def)
  show ?case
  proof (cases "Users c - {uid} = {}")
    case True
    with Nil.prems(1) st0 c have "st' = st0\<lparr>Call := None\<rparr>" "kv p' cid = Some st'"
      by (auto simp: removeUserSession_tx_def Let_def)
    moreover from True ne have "Users c = {uid}"
      by auto
    ultimately show ?thesis
      using st0 c by (simp add: members_def)
  next
    case False
    with Nil.prems(1) st0 c have "st' = st0\<lparr>Call := Some (c\<lparr>Users := Users c - {uid}\<rparr>)\<rparr>"
      "kv p' cid = Some st'"
      by (auto simp: removeUserSession_tx_def Let_def)
    moreover from False have "Users c \<noteq> {uid}"
      by auto
    ultimately show ?thesis
      using st0 c by (simp add: members_def)
  qed
next
  case (Cons w wr)
  obtain r e st1 where tx: "removeUserSession_tx uid (kv p cid) st = ((r, e), st1)"
    by (cases "removeUserSession_tx uid (kv p cid) st") auto
  from Cons.prems(1) obtain m where n: "n = Suc m"
    and rec: "kvSetAtomicChannelState m wr cid (removeUserSession_tx uid) st1 (p\<lparr>kv := (kv p)(cid := w)\<rparr>)
               = ((None, st'), p')"
    by (cases e; cases n) (simp_all add: tx)
  from Cons.IH [OF rec] Cons.prems(3) show ?case
    by simp
qed



text \<open>
  C1. For every channel record whose call is present iff it has members, the same holds
  after any sequence of addUserSession and removeUserSession transactions (on this or any
  other channel), whatever their retry bounds, provided that the records which other
  writers put in place during these transactions have the property too. A successful
  addUserSession stores and returns a record with a call that has the user among its
  members, so never an empty member set. A successful removeUserSession stores and
  returns a record whose members are those of the record it read last (the record of
  the channel when the transaction runs alone) without the user, and whose call is nil
  exactly when the user was the last member.
\<close>

theorem call_present_iff_members:
  assumes inv: "callInv (kv p cid)"
    and others: "\<forall>t\<in>set ts. \<forall>w\<in>set (txnWrites t). callInv w"
    and own: "\<forall>w\<in>set wr. callInv w"
  shows "callInv (kv (runTxns z ts p) cid) \<and>
         (\<forall>st p'. addUserSession z n wr nid now uid cid us p = ((st, None), p') \<longrightarrow>
            kv p' cid = Some st \<and> Call st \<noteq> None \<and> uid \<in> members st) \<and>
         (\<forall>st p'. removeUserSession z n wr uid cid p = ((st, None), p') \<longrightarrow>
            kv p' cid = Some st \<and>
            (\<exists>st0. last (kv p cid # wr) = Some st0 \<and> members st = members st0 - {uid} \<and>
                   (Call st = None) = (members st0 = {uid})))"
proof (intro conjI allI impI)
  show "callInv (kv (runTxns z ts p) cid)"
    using inv others by (rule callInv_runTxns)
next
  fix st p'
  assume a: "addUserSession z n wr nid now uid cid us p = ((st, None), p')"
  define p2 where "p2 = (LogDebug ''adding session'' [(''UserID'', uid), (''ChannelID'', cid)] p)
                          \<lparr>sessions := (sessions p)(uid \<mapsto> us)\<rparr>"
  from a have "kvSetAtomicChannelState n wr cid (addUserSession_tx uid nid now) (zeroChannelState z) p2
                 = ((None, st), p')"
    unfolding addUserSession_unfold Let_def p2_def [symmetric] by (simp add: prod_eq_iff)
  from kvSet_add_ok [OF this]
  show "kv p' cid = Some st" "Call st \<noteq> None" "uid \<in> members st"
    by simp_all
next
  fix st p'
  assume r: "removeUserSession z n wr uid cid p = ((st, None), p')"
  define p2 where "p2 = (LogDebug ''removing session'' [(''UserID'', uid), (''ChannelID'', cid)] p)
                          \<lparr>sessions := (sessions p)(uid := None)\<rparr>"
  have k2: "kv p2 = kv p"
    by (simp add: p2_def LogDebug_def)
  from r have "kvSetAtomicChannelState n wr cid (removeUserSession_tx uid) (zeroChannelState z) p2
                 = ((None, st), p')"
    unfolding removeUserSession_unfold Let_def p2_def [symmetric] by (simp add: prod_eq_iff)
  from kvSet_remove_ok [OF this] inv own
  show "kv p' cid = Some st"
    "\<exists>st0. last (kv p cid # wr) = Some st0 \<and> members st = members st0 - {uid} \<and>
           (Call st = None) = (members st0 = {uid})"
    unfolding k2 by simp_all
qed

theorem call_present_iff_members_witness:
  "callInv (kv demoPlugin ''general'') \<and> callInv (Some \<lparr>Call = None\<rparr>) \<and>
   callInv (kv (runTxns () [AddUser 1 [Some \<lparr>Call = None\<rparr>] ''call2'' 2000 ''B'' ''general''
                              (newUserSession ''B'' ''general''),
                            RemoveUser 0 [] ''A'' ''general'', RemoveUser 0 [] ''B'' ''general'']
                  demoPlugin) ''general'') \<and>
   snd (fst (addUserSession () 1 [Some \<lparr>Call = None\<rparr>] ''call2'' 2000 ''B'' ''general''
               (newUserSession ''B'' ''general'') demoPlugin)) = None \<and>
   ''B'' \<in> members (fst (fst (addUserSession () 1 [Some \<lparr>Call = None\<rparr>] ''call2'' 2000 ''B'' ''general''
                                 (newUserSession ''B'' ''general'') demoPlugin))) \<and>
   snd (fst (removeUserSession () 0 [] ''A'' ''general'' demoPlugin)) = None \<and>
   Call (fst (fst (removeUserSession () 0 [] ''A'' ''general'' demoPlugin))) = None"
proof -
  let ?wr = "[Some \<lparr>Call = None\<rparr>] :: unit channelState_scheme option list"
  let ?ts = "[AddUser 1 ?wr ''call2'' 2000 ''B'' ''general'' (newUserSession ''B'' ''general''),
              RemoveUser 0 [] ''A'' ''general'', RemoveUser 0 [] ''B'' ''general'']"
  let ?add = "addUserSession () 1 ?wr ''call2'' 2000 ''B'' ''general'' (newUserSession ''B'' ''general'') demoPlugin"
  let ?rem = "removeUserSession () 0 [] ''A'' ''general'' demoPlugin"
  have h: "callInv (kv demoPlugin ''general'')"
    by (simp add: demoPlugin_def callInv_def members_def)
  have w: "callInv (Some \<lparr>Call = None\<rparr>)"
    by (simp add: callInv_def members_def)
  have o: "\<forall>t\<in>set ?ts. \<forall>w\<in>set (txnWrites t). callInv w"
    using w by simp
  have ow: "\<forall>w\<in>set ?wr. callInv w"
    using w by simp
  have oe: "\<forall>w\<in>set ([] :: unit channelState_scheme option list). callInv w"
    by simp
  note addB = call_present_iff_members [OF h o ow, where z = "()" and n = 1 and nid = "''call2''"
      and now = 2000 and uid = "''B''" and us = "newUserSession ''B'' ''general''"]
  note remA = call_present_iff_members [OF h o oe, where z = "()" and n = 0 and uid = "''A''"]
  have a: "snd (fst ?add) = None"
    by (simp add: addUserSession_def addUserSession_tx_def LogDebug_def demoPlugin_def Let_def)
  then have a': "?add = ((fst (fst ?add), None), snd ?add)"
    by (simp add: prod_eq_iff)
  have r: "snd (fst ?rem) = None"
    by (simp add: removeUserSession_eq demoPlugin_def Let_def)
  then have r': "?rem = ((fst (fst ?rem), None), snd ?rem)"
    by (simp add: prod_eq_iff)
  have m: "members (the (kv demoPlugin ''general'')) = {''A''}"
    by (simp add: demoPlugin_def members_def)
  have 1: "callInv (kv (runTxns () ?ts demoPlugin) ''general'')"
    by (rule addB [THEN conjunct1])
  have 2: "''B'' \<in> members (fst (fst ?add))"
    using addB [THEN conjunct2, THEN conjunct1, rule_format, OF a'] by (elim conjE)
  obtain st0 where s0: "last [kv demoPlugin ''general''] = Some st0"
      and c0: "(Call (fst (fst ?rem)) = None) = (members st0 = {''A''})"
    using remA [THEN conjunct2, THEN conjunct2, rule_format, OF r'] by (elim conjE exE)
  from s0 m c0 have 3: "Call (fst (fst ?rem)) = None"
    by simp
  from h w 1 a 2 r 3 show ?thesis
    by simp
qed

text \<open>
  C2. removeUserSession on a channel whose record exists but has no call returns the
  error "call state is missing from channel state"; addUserSession and removeUserSession
  on a channel with no record return the error "channel state is missing from store". In
  both cases the transform returns nil for the record, the captured result stays as it
  was (the zero value), and the store is left as it was. This holds whatever the retry
  bound and the other writers are: the error of the transform ends the transaction at
  its first attempt.
\<close>

theorem missing_state_errors:
  "(kv p cid = None \<longrightarrow>
      addUserSession_tx uid nid now (kv p cid) st = ((None, Some ChannelStateMissing), st) \<and>
      removeUserSession_tx uid (kv p cid) st = ((None, Some ChannelStateMissing), st) \<and>
      fst (addUserSession z n wr nid now uid cid us p) = (zeroChannelState z, Some ChannelStateMissing) \<and>
      kv (snd (addUserSession z n wr nid now uid cid us p)) = kv p \<and>
      fst (removeUserSession z n wr uid cid p) = (zeroChannelState z, Some ChannelStateMissing) \<and>
      kv (snd (removeUserSession z n wr uid cid p)) = kv p) \<and>
   (\<forall>state. kv p cid = Some state \<and> Call state = None \<longrightarrow>
      removeUserSession_tx uid (kv p cid) st = ((None, Some CallStateMissing), st) \<and>
      fst (removeUserSession z n wr uid cid p) = (zeroChannelState z, Some CallStateMissing) \<and>
      kv (snd (removeUserSession z n wr uid cid p)) = kv p) \<and>
   ChannelStateMissing \<noteq> CallStateMissing"
  by (simp add: addUserSession_missing removeUserSession_missing removeUserSession_no_call
        addUserSession_tx_def removeUserSession_tx_def errors_distinct)

theorem missing_state_errors_witness:
  "kv idlePlugin ''other'' = None \<and>
   fst (addUserSession () 0 [] ''call1'' 1000 ''A'' ''other'' (newUserSession ''A'' ''other'') idlePlugin)
     = (\<lparr>Call = None\<rparr>, Some (Errorf ''channel state is missing from store'')) \<and>
   fst (removeUserSession () 0 [] ''A'' ''other'' idlePlugin)
     = (\<lparr>Call = None\<rparr>, Some (Errorf ''channel state is missing from store'')) \<and>
   kv idlePlugin ''general'' = Some \<lparr>Call = None\<rparr> \<and>
   fst (removeUserSession () 0 [] ''A'' ''general'' idlePlugin)
     = (\<lparr>Call = None\<rparr>, Some (Errorf ''call state is missing from channel state'')) \<and>
   kv (snd (removeUserSession () 0 [] ''A'' ''general'' idlePlugin)) = kv idlePlugin"
proof -
  have h1: "kv idlePlugin ''other'' = None"
    by (simp add: idlePlugin_def)
  have h2: "kv idlePlugin ''general'' = Some \<lparr>Call = None\<rparr>"
    by (simp add: idlePlugin_def)
  note m1 = missing_state_errors [where p = idlePlugin and cid = "''other''" and uid = "''A''"
      and nid = "''call1''" and now = 1000 and st = "\<lparr>Call = None\<rparr>" and z = "()" and n = 0 and wr = "[]"
      and us = "newUserSession ''A'' ''other''"]
  note m2 = missing_state_errors [where p = idlePlugin and cid = "''general''" and uid = "''A''"
      and nid = "''call1''" and now = 1000 and st = "\<lparr>Call = None\<rparr>" and z = "()" and n = 0 and wr = "[]"
      and us = "newUserSession ''A'' ''general''"]
  from h1 m1
  have a: "fst (addUserSession () 0 [] ''call1'' 1000 ''A'' ''other'' (newUserSession ''A'' ''other'') idlePlugin)
             = (zeroChannelState (), Some ChannelStateMissing)"
    and b: "fst (removeUserSession () 0 [] ''A'' ''other'' idlePlugin) = (zeroChannelState (), Some ChannelStateMissing)"
    by blast+
  from h2 m2
  have c: "fst (removeUserSession () 0 [] ''A'' ''general'' idlePlugin) = (zeroChannelState (), Some CallStateMissing)"
    and d: "kv (snd (removeUserSession () 0 [] ''A'' ''general'' idlePlugin)) = kv idlePlugin"
    by auto
  from h1 h2 a b c d show ?thesis
    by (simp add: zeroChannelState_def ChannelStateMissing_def CallStateMissing_def)
qed

text \<open>
  C3. On a channel whose record is initialised and has no call, with two distinct users
  A and B, and with no other writer: addUserSession A returns and stores the record
  with a new call (the new identifier, the current time) whose member set is the empty
  set with A inserted; addUserSession B gives the members A and B in the same call;
  removeUserSession A leaves B; removeUserSession B gives back the record with no call.
  Each operation returns the record it stored, with no error.
\<close>

theorem join_leave_scenario:
  assumes st0: "kv p cid = Some st0" and nocall: "Call st0 = None" and ab: "A \<noteq> B"
  shows "(let (r1, p1) = addUserSession z n [] id1 t1 A cid sA p;
              (r2, p2) = addUserSession z n [] id2 t2 B cid sB p1;
              (r3, p3) = removeUserSession z n [] A cid p2;
              (r4, p4) = removeUserSession z n [] B cid p3
          in r1 = (st0\<lparr>Call := Some \<lparr>ID = id1, StartAt = t1, Users = insert A {}\<rparr>\<rparr>, None) \<and>
             kv p1 cid = Some (fst r1) \<and>
             r2 = (st0\<lparr>Call := Some \<lparr>ID = id1, StartAt = t1, Users = {A, B}\<rparr>\<rparr>, None) \<and>
             kv p2 cid = Some (fst r2) \<and>
             r3 = (st0\<lparr>Call := Some \<lparr>ID = id1, StartAt = t1, Users = {B}\<rparr>\<rparr>, None) \<and>
             kv p3 cid = Some (fst r3) \<and>
             r4 = (st0, None) \<and>
             kv p4 cid = Some st0)"
proof -
  from nocall have same: "st0\<lparr>Call := None\<rparr> = st0"
    by simp
  from ab have sets: "insert B {A} = {A, B}" "{A, B} - {A} = {B}" "{B} \<noteq> {}" "{B} - {B} = {}"
    by auto
  from ab have ne: "insert B {A} - {A} \<noteq> {}"
    by auto
  show ?thesis
    using st0 nocall same ne ab
    by (simp add: addUserSession_eq removeUserSession_eq Let_def insert_Diff_if insert_commute)
qed

theorem join_leave_scenario_witness:
  "kv idlePlugin ''general'' = Some \<lparr>Call = None\<rparr> \<and> Call \<lparr>Call = None\<rparr> = None \<and> ''A'' \<noteq> ''B'' \<and>
   (let (r1, p1) = addUserSession () 0 [] ''call1'' 1000 ''A'' ''general'' (newUserSession ''A'' ''general'') idlePlugin;
        (r2, p2) = addUserSession () 0 [] ''call2'' 2000 ''B'' ''general'' (newUserSession ''B'' ''general'') p1;
        (r3, p3) = removeUserSession () 0 [] ''A'' ''general'' p2;
        (r4, p4) = removeUserSession () 0 [] ''B'' ''general'' p3
    in r1 = (\<lparr>Call = Some \<lparr>ID = ''call1'', StartAt = 1000, Users = {''A''}\<rparr>\<rparr>, None) \<and>
       r2 = (\<lparr>Call = Some \<lparr>ID = ''call1'', StartAt = 1000, Users = {''A'', ''B''}\<rparr>\<rparr>, None) \<and>
       r3 = (\<lparr>Call = Some \<lparr>ID = ''call1'', StartAt = 1000, Users = {''B''}\<rparr>\<rparr>, None) \<and>
       r4 = (\<lparr>Call = None\<rparr>, None) \<and>
       kv p4 ''general'' = Some \<lparr>Call = None\<rparr>)"
proof -
  have h1: "kv idlePlugin ''general'' = Some \<lparr>Call = None\<rparr>"
    by (simp add: idlePlugin_def)
  have h2: "Call \<lparr>Call = None\<rparr> = None"
    by simp
  have h3: "''A'' \<noteq> ''B''"
    by simp
  show ?thesis
    using h1 h2 h3
      join_leave_scenario [OF h1 h2 h3, of "()" 0 "''call1''" 1000 "newUserSession ''A'' ''general''"
        "''call2''" 2000 "newUserSession ''B'' ''general''"]
    by (simp add: Let_def split_beta)
qed




section \<open>Client: properties\<close>

subsection \<open>Appending to the trace\<close>

lemma do_fx_Nil [simp]: "do_fx [] s = s"
  by (simp add: do_fx_def)

lemma do_fx_do_fx [simp]: "do_fx es (do_fx ds s) = do_fx (ds @ es) s"
  by (simp add: do_fx_def)

lemma do_fx_fields:
  "peer (do_fx es s) = peer s"
  "ws (do_fx es s) = ws s"
  "fx (do_fx es s) = fx s @ es"
  "closed (do_fx es s) = closed s"
  "rtcMonitor (do_fx es s) = rtcMonitor s"
  "localScreenTrack (do_fx es s) = localScreenTrack s"
  "audioTrack (do_fx es s) = audioTrack s"
  "stream (do_fx es s) = stream s"
  "streams (do_fx es s) = streams s"
  "voiceTrackAdded (do_fx es s) = voiceTrackAdded s"
  "tracks (do_fx es s) = tracks s"
  "streamTracks (do_fx es s) = streamTracks s"
  "currentAudioInputDevice (do_fx es s) = currentAudioInputDevice s"
  "currentAudioOutputDevice (do_fx es s) = currentAudioOutputDevice s"
  "audioDevices (do_fx es s) = audioDevices s"
  "localStorage (do_fx es s) = localStorage s"
  "calls (do_fx es s) = calls s"
  "config (do_fx es s) = config s"
  "av1Codec (do_fx es s) = av1Codec s"
  by (simp_all add: do_fx_def)

lemma only_fx_refl: "\<exists>es. s = do_fx es s"
  by (rule exI [of _ "[]"]) simp

lemma only_fx_one: "\<exists>es. do_fx ds s = do_fx es s"
  by (rule exI [of _ ds]) simp

lemma snd_if: "snd (if c then x else y) = (if c then snd x else snd y)"
  by simp

lemma ex_if: "\<exists>es. a = f es \<and> P es \<Longrightarrow> \<exists>es. b = f es \<and> P es \<Longrightarrow> \<exists>es. (if c then a else b) = f es \<and> P es"
  by simp

lemma only_log_refl: "\<exists>es. s = do_fx es s \<and> emitted name es = []"
  by (rule exI [of _ "[]"]) simp

lemma only_log_one: "\<exists>es. do_fx [Log l m] s = do_fx es s \<and> emitted name es = []"
  by (rule exI [of _ "[Log l m]"]) simp

text \<open>\<open>getSelectedAudioDevice\<close> leaves the state as it is but for its log line.\<close>

lemma getSelectedAudioDevice_logs:
  "\<exists>es. snd (getSelectedAudioDevice deviceType s) = do_fx es s \<and> emitted name es = []"
proof -
  obtain selId selLabel where sel: "storedSelection deviceType s = (selId, selLabel)"
    by (rule prod.exhaust)
  show ?thesis
    unfolding getSelectedAudioDevice_def Let_def sel prod.case logInfo_def logDebug_def
    by (simp only: snd_if snd_conv) (intro ex_if only_log_refl only_log_one)
qed

lemma getSelectedAudioDevice_state:
  "\<exists>es. snd (getSelectedAudioDevice deviceType s) = do_fx es s"
  using getSelectedAudioDevice_logs [of deviceType s "[]"] by blast

subsection \<open>Screen sharing: one local screen track\<close>

text \<open>
  C7. In every client state with a local screen track, setScreenStream returns at once:
  the whole state (local screen track, list of streams, the stores, the trace of calls
  on the peer and the websocket) is as before, and nothing is thrown.
\<close>

theorem second_screen_stream_rejected:
  assumes "localScreenTrack s \<noteq> None"
  shows "setScreenStream newId screenStream s = (Returned, s)"
  using assms by (simp add: setScreenStream_def split: option.splits)

lemma sharingClient_localScreenTrack: "localScreenTrack sharingClient = Some ''screen-video''"
  by (simp add: sharingClient_def setScreenStream_def connectedClient_def newCallsClient_def
        getVideoTracks_def getAudioTracks_def Let_def do_fx_def emit_def)

theorem second_screen_stream_rejected_witness:
  "localScreenTrack sharingClient \<noteq> None \<and>
   setScreenStream ''shared2'' (Some ''capture'') sharingClient = (Returned, sharingClient)"
proof -
  have h: "localScreenTrack sharingClient \<noteq> None"
    by (simp add: sharingClient_localScreenTrack)
  from h second_screen_stream_rejected [OF h, of "''shared2''" "Some ''capture''"]
  show ?thesis by simp
qed

subsection \<open>Device setters without a peer\<close>

lemma setAudioInputDevice_no_peer:
  "peer s = None \<Longrightarrow> setAudioInputDevice n b device store s = Some (Returned, s)"
  by (simp add: setAudioInputDevice_def setAudioInputDevice_body_def)

lemma setAudioOutputDevice_no_peer:
  "peer s = None \<Longrightarrow> setAudioOutputDevice device store s = s"
  by (simp add: setAudioOutputDevice_def)

lemma handleAudioDeviceFallback_no_peer:
  assumes np: "peer s = None"
  shows "\<exists>es. handleAudioDeviceFallback n b deviceType s = Some (Returned, do_fx es s)"
proof -
  obtain sel es0 where g: "getSelectedAudioDevice deviceType s = (sel, do_fx es0 s)"
    using getSelectedAudioDevice_state [of deviceType s]
    by (cases "getSelectedAudioDevice deviceType s") auto
  have set_in: "\<And>d ds. setAudioInputDevice n b d False (do_fx ds s) = Some (Returned, do_fx ds s)"
    using np by (simp add: setAudioInputDevice_no_peer do_fx_fields)
  have set_out: "\<And>d ds. setAudioOutputDevice d False (do_fx ds s) = do_fx ds s"
    using np by (simp add: setAudioOutputDevice_no_peer do_fx_fields)
  show ?thesis
    unfolding handleAudioDeviceFallback_def handleAudioDeviceFallback_body_def selectDevice_def
      Let_def logDebug_def emit_def g prod.case
    by (simp add: set_in set_out only_fx_one split: list.split option.split)
qed

text \<open>
  C10. Without a peer, setAudioInputDevice and setAudioOutputDevice return at once, for
  every device and either value of \<open>store\<close>: the state is as before (current devices,
  persisted preference, trace with its events), and nothing is thrown. So the automatic
  fallback, which selects through these two setters, changes nothing but the trace (its
  own log lines and notification) as long as there is no peer.
\<close>

theorem device_setters_need_peer:
  assumes "peer s = None"
  shows "setAudioInputDevice n b device store s = Some (Returned, s) \<and>
         setAudioOutputDevice device store s = s \<and>
         (\<exists>es. handleAudioDeviceFallback n b deviceType s = Some (Returned, s\<lparr>fx := fx s @ es\<rparr>))"
  using assms handleAudioDeviceFallback_no_peer [OF assms, of n b deviceType]
  by (simp add: setAudioInputDevice_no_peer setAudioOutputDevice_no_peer do_fx_def)

theorem device_setters_need_peer_witness:
  "peer joiningClient = None \<and>
   setAudioInputDevice 0 (steadyBrowser [builtinMic]) builtinMic True joiningClient
     = Some (Returned, joiningClient) \<and>
   setAudioOutputDevice speakers True joiningClient = joiningClient \<and>
   currentAudioInputDevice joiningClient = Some usbMic"
proof -
  have h: "peer joiningClient = None"
    by (simp add: joiningClient_def)
  have c: "currentAudioInputDevice joiningClient = Some usbMic"
    by (simp add: joiningClient_def connectedClient_def)
  from device_setters_need_peer [OF h, of 0 "steadyBrowser [builtinMic]" builtinMic True]
  have a: "setAudioInputDevice 0 (steadyBrowser [builtinMic]) builtinMic True joiningClient
             = Some (Returned, joiningClient)"
    by (rule conjunct1)
  from device_setters_need_peer [OF h, of 0 "steadyBrowser [builtinMic]" speakers True]
  have b: "setAudioOutputDevice speakers True joiningClient = joiningClient"
    by (rule conjunct2 [THEN conjunct1])
  from h a b c show ?thesis
    by simp
qed

subsection \<open>The end of a shared screen track\<close>

lemma track_stop_fields:
  "peer (track_stop t s) = peer s"
  "ws (track_stop t s) = ws s"
  "fx (track_stop t s) = fx s"
  "localScreenTrack (track_stop t s) = localScreenTrack s"
  "onended (tracks (track_stop t s) u) = onended (tracks s u)"
  by (simp_all add: track_stop_def)

lemma screenTrack_onended_connected:
  assumes "ws s \<noteq> None" and "peer s \<noteq> None"
  shows "localScreenTrack (screenTrack_onended t a s) = None"
    and "fx (screenTrack_onended t a s) = fx s @ [PeerRemoveTrack t, WsSend ''screen_off'' None]"
proof -
  from assms obtain w p where wp: "ws s = Some w" "peer s = Some p"
    by auto
  show "localScreenTrack (screenTrack_onended t a s) = None"
    using wp by (simp add: screenTrack_onended_def Let_def track_stop_fields do_fx_fields split: option.split)
  show "fx (screenTrack_onended t a s) = fx s @ [PeerRemoveTrack t, WsSend ''screen_off'' None]"
    using wp by (simp add: screenTrack_onended_def Let_def track_stop_fields do_fx_fields split: option.split)
qed

lemma setScreenStream_shares:
  assumes "ws s \<noteq> None" and "peer s \<noteq> None" and "localScreenTrack s = None"
    and "getVideoTracks s sid = t # ts"
  shows "fst (setScreenStream newId (Some sid) s) = Returned"
    and "ws (snd (setScreenStream newId (Some sid) s)) = ws s"
    and "peer (snd (setScreenStream newId (Some sid) s)) = peer s"
    and "localScreenTrack (snd (setScreenStream newId (Some sid) s)) = Some t"
    and "onended (tracks (snd (setScreenStream newId (Some sid) s)) t)
           = Some (ScreenTrackEnded t (case getAudioTracks s sid of [] \<Rightarrow> None | a # _ \<Rightarrow> Some a))"
    and "\<exists>es. fx (snd (setScreenStream newId (Some sid) s))
           = fx s @ [Log Debug ''adding stream to peer'', PeerAddStream newId None] @ es @
             [WsSend ''screen_on'' (Some newId), Emit (EvLocalScreenStream newId)]"
proof -
  from assms obtain w p where wp: "ws s = Some w" "peer s = Some p"
    by auto
  note defs = setScreenStream_def Let_def do_fx_def emit_def getAudioTracks_def
  show "fst (setScreenStream newId (Some sid) s) = Returned"
    using wp assms(3,4) by (simp add: defs)
  show "ws (snd (setScreenStream newId (Some sid) s)) = ws s"
    using wp assms(3,4) by (simp add: defs)
  show "peer (snd (setScreenStream newId (Some sid) s)) = peer s"
    using wp assms(3,4) by (simp add: defs)
  show "localScreenTrack (snd (setScreenStream newId (Some sid) s)) = Some t"
    using wp assms(3,4) by (simp add: defs)
  show "onended (tracks (snd (setScreenStream newId (Some sid) s)) t)
           = Some (ScreenTrackEnded t (case getAudioTracks s sid of [] \<Rightarrow> None | a # _ \<Rightarrow> Some a))"
    using wp assms(3,4) by (simp add: defs)
  show "\<exists>es. fx (snd (setScreenStream newId (Some sid) s))
           = fx s @ [Log Debug ''adding stream to peer'', PeerAddStream newId None] @ es @
             [WsSend ''screen_on'' (Some newId), Emit (EvLocalScreenStream newId)]"
    using wp assms(3,4) by (simp add: defs)
qed

text \<open>
  C8. While the websocket and the peer exist, let the local screen track carry the
  handler that setScreenStream installs. When the track ends by itself, and likewise on
  unshareScreen, the client clears its local screen track, asks the peer to remove the
  track and then sends \<open>screen_off\<close> over the websocket; nothing else is called. A
  setScreenStream that goes through leaves the client in such a state.
\<close>

theorem screen_track_end_notifies:
  "(ws s \<noteq> None \<and> peer s \<noteq> None \<and> localScreenTrack s = Some t \<and>
    onended (tracks s t) = Some (ScreenTrackEnded t a) \<longrightarrow>
      localScreenTrack (trackEndedExternally t s) = None \<and>
      fx (trackEndedExternally t s) = fx s @ [PeerRemoveTrack t, WsSend ''screen_off'' None] \<and>
      localScreenTrack (unshareScreen s) = None \<and>
      fx (unshareScreen s) = fx s @ [PeerRemoveTrack t, WsSend ''screen_off'' None]) \<and>
   (ws s0 \<noteq> None \<and> peer s0 \<noteq> None \<and> localScreenTrack s0 = None \<and>
    getVideoTracks s0 sid = t # ts \<longrightarrow>
      (let s1 = snd (setScreenStream newId (Some sid) s0)
       in ws s1 \<noteq> None \<and> peer s1 \<noteq> None \<and> localScreenTrack s1 = Some t \<and>
          (\<exists>a1. onended (tracks s1 t) = Some (ScreenTrackEnded t a1))))"
proof (intro conjI impI; (elim conjE)?)
  assume conn: "ws s \<noteq> None" "peer s \<noteq> None"
    and loc: "localScreenTrack s = Some t"
    and hdl: "onended (tracks s t) = Some (ScreenTrackEnded t a)"
  let ?s1 = "track_stop t s"
  have c1: "ws ?s1 \<noteq> None" "peer ?s1 \<noteq> None"
    using conn by (simp_all add: track_stop_fields)
  have d: "dispatchEnded t ?s1 = screenTrack_onended t a ?s1"
    using hdl by (simp add: dispatchEnded_def track_stop_fields)
  show 1: "localScreenTrack (trackEndedExternally t s) = None"
    unfolding trackEndedExternally_def d by (rule screenTrack_onended_connected(1) [OF c1])
  show 2: "fx (trackEndedExternally t s) = fx s @ [PeerRemoveTrack t, WsSend ''screen_off'' None]"
    unfolding trackEndedExternally_def d
    by (simp add: screenTrack_onended_connected(2) [OF c1] track_stop_fields)
  from conn obtain w where w: "ws s = Some w"
    by auto
  have u: "unshareScreen s = (trackEndedExternally t s)\<lparr>localScreenTrack := None\<rparr>"
    using w loc by (simp add: unshareScreen_def trackEndedExternally_def)
  show "localScreenTrack (unshareScreen s) = None"
    by (simp add: u)
  show "fx (unshareScreen s) = fx s @ [PeerRemoveTrack t, WsSend ''screen_off'' None]"
    by (simp add: u 2)
next
  assume h: "ws s0 \<noteq> None" "peer s0 \<noteq> None" "localScreenTrack s0 = None"
    "getVideoTracks s0 sid = t # ts"
  note sh = setScreenStream_shares [OF h, of newId]
  show "let s1 = snd (setScreenStream newId (Some sid) s0)
        in ws s1 \<noteq> None \<and> peer s1 \<noteq> None \<and> localScreenTrack s1 = Some t \<and>
           (\<exists>a1. onended (tracks s1 t) = Some (ScreenTrackEnded t a1))"
    unfolding Let_def using h(1,2) by (simp add: sh(2,3,4,5))
qed

lemma sharingClient_handler:
  "onended (tracks sharingClient ''screen-video'')
     = Some (ScreenTrackEnded ''screen-video'' (Some ''screen-audio''))"
  unfolding sharingClient_def
  by (simp add: setScreenStream_def connectedClient_def newCallsClient_def
        getVideoTracks_def getAudioTracks_def Let_def do_fx_def emit_def)

lemma sharingClient_conn: "ws sharingClient \<noteq> None" "peer sharingClient \<noteq> None"
  unfolding sharingClient_def
  by (simp_all add: setScreenStream_def connectedClient_def newCallsClient_def
        getVideoTracks_def getAudioTracks_def Let_def do_fx_def emit_def)

lemma connectedClient_video: "getVideoTracks connectedClient ''capture'' = ''screen-video'' # []"
  by (simp add: connectedClient_def newCallsClient_def getVideoTracks_def)

theorem screen_track_end_notifies_witness:
  "ws connectedClient \<noteq> None \<and> peer connectedClient \<noteq> None \<and>
   localScreenTrack connectedClient = None \<and>
   getVideoTracks connectedClient ''capture'' = [''screen-video''] \<and>
   sharingClient = snd (setScreenStream ''shared'' (Some ''capture'') connectedClient) \<and>
   localScreenTrack sharingClient = Some ''screen-video'' \<and>
   localScreenTrack (trackEndedExternally ''screen-video'' sharingClient) = None \<and>
   fx (trackEndedExternally ''screen-video'' sharingClient)
     = fx sharingClient @ [PeerRemoveTrack ''screen-video'', WsSend ''screen_off'' None] \<and>
   fx (unshareScreen sharingClient)
     = fx sharingClient @ [PeerRemoveTrack ''screen-video'', WsSend ''screen_off'' None]"
proof -
  have c: "ws connectedClient \<noteq> None" "peer connectedClient \<noteq> None"
    "localScreenTrack connectedClient = None"
    by (simp_all add: connectedClient_def newCallsClient_def)
  note v = connectedClient_video
  note inst = screen_track_end_notifies [of sharingClient "''screen-video''" "Some ''screen-audio''"
      connectedClient "''capture''" "[]" "''shared''"]
  from inst [THEN conjunct2, rule_format, OF conjI [OF c(1) conjI [OF c(2) conjI [OF c(3) v]]]]
  have l: "localScreenTrack sharingClient = Some ''screen-video''"
    by (simp add: Let_def sharingClient_def)
  from inst [THEN conjunct1, rule_format,
      OF conjI [OF sharingClient_conn(1) conjI [OF sharingClient_conn(2) conjI [OF l sharingClient_handler]]]]
  have e: "localScreenTrack (trackEndedExternally ''screen-video'' sharingClient) = None"
    "fx (trackEndedExternally ''screen-video'' sharingClient)
       = fx sharingClient @ [PeerRemoveTrack ''screen-video'', WsSend ''screen_off'' None]"
    "fx (unshareScreen sharingClient)
       = fx sharingClient @ [PeerRemoveTrack ''screen-video'', WsSend ''screen_off'' None]"
    by simp_all
  from c v l e show ?thesis
    by (simp add: sharingClient_def)
qed

subsection \<open>Disconnecting twice\<close>

text \<open>
  Without a peer, stopping a track and dispatching \<open>ended\<close> to it changes the track
  store and the local screen track only: the screen handler returns before it calls the
  peer or the websocket. The track is ended afterwards, and ended tracks stay ended.
\<close>

lemma endTrack_no_peer:
  assumes np: "peer s = None"
  shows "\<exists>tr l. dispatchEnded t (track_stop t s) = s\<lparr>tracks := tr, localScreenTrack := l\<rparr> \<and>
           readyState (tr t) = ended \<and>
           (\<forall>u. readyState (tracks s u) = ended \<longrightarrow> readyState (tr u) = ended)"
proof -
  let ?tr1 = "(tracks s)(t := (tracks s t)\<lparr>readyState := ended\<rparr>)"
  have s1: "track_stop t s = s\<lparr>tracks := ?tr1\<rparr>"
    by (simp add: track_stop_def)
  have k1: "readyState (?tr1 t) = ended"
    "\<forall>u. readyState (tracks s u) = ended \<longrightarrow> readyState (?tr1 u) = ended"
    by simp_all
  show ?thesis
  proof (cases "onended (tracks s t)")
    case None
    then have "dispatchEnded t (track_stop t s) = s\<lparr>tracks := ?tr1, localScreenTrack := localScreenTrack s\<rparr>"
      by (simp add: dispatchEnded_def s1)
    with k1 show ?thesis
      by blast
  next
    case (Some h)
    obtain st a where h: "h = ScreenTrackEnded st a"
      by (cases h)
    show ?thesis
    proof (cases a)
      case None
      with Some h np have "dispatchEnded t (track_stop t s) = s\<lparr>tracks := ?tr1, localScreenTrack := None\<rparr>"
        by (simp add: dispatchEnded_def s1 screenTrack_onended_def)
      with k1 show ?thesis
        by blast
    next
      case (Some x)
      let ?tr2 = "?tr1(x := (?tr1 x)\<lparr>readyState := ended\<rparr>)"
      from Some \<open>onended (tracks s t) = Some h\<close> h np
      have "dispatchEnded t (track_stop t s) = s\<lparr>tracks := ?tr2, localScreenTrack := None\<rparr>"
        by (simp add: dispatchEnded_def s1 screenTrack_onended_def track_stop_def)
      moreover have "readyState (?tr2 t) = ended"
        "\<forall>u. readyState (tracks s u) = ended \<longrightarrow> readyState (?tr2 u) = ended"
        by simp_all
      ultimately show ?thesis
        by blast
    qed
  qed
qed

lemma endTracks_no_peer:
  assumes "peer s = None"
  shows "\<exists>tr l. fold (\<lambda>t s2. dispatchEnded t (track_stop t s2)) ts s
                  = s\<lparr>tracks := tr, localScreenTrack := l\<rparr> \<and>
           (\<forall>t \<in> set ts. readyState (tr t) = ended) \<and>
           (\<forall>u. readyState (tracks s u) = ended \<longrightarrow> readyState (tr u) = ended)"
  using assms
proof (induction ts arbitrary: s)
  case Nil
  have "s = s\<lparr>tracks := tracks s, localScreenTrack := localScreenTrack s\<rparr>"
    by simp
  then show ?case
    by (metis empty_iff empty_set fold_simps(1))
next
  case (Cons t ts)
  from endTrack_no_peer [OF Cons.prems, of t] obtain tr1 l1 where
    e: "dispatchEnded t (track_stop t s) = s\<lparr>tracks := tr1, localScreenTrack := l1\<rparr>"
    and t1: "readyState (tr1 t) = ended"
    and k1: "\<forall>u. readyState (tracks s u) = ended \<longrightarrow> readyState (tr1 u) = ended"
    by blast
  let ?s1 = "s\<lparr>tracks := tr1, localScreenTrack := l1\<rparr>"
  have np1: "peer ?s1 = None"
    using Cons.prems by simp
  from Cons.IH [OF np1] obtain tr2 l2 where
    f: "fold (\<lambda>t s2. dispatchEnded t (track_stop t s2)) ts ?s1 = ?s1\<lparr>tracks := tr2, localScreenTrack := l2\<rparr>"
    and t2: "\<forall>t \<in> set ts. readyState (tr2 t) = ended"
    and k2: "\<forall>u. readyState (tracks ?s1 u) = ended \<longrightarrow> readyState (tr2 u) = ended"
    by blast
  have "fold (\<lambda>t s2. dispatchEnded t (track_stop t s2)) (t # ts) s = s\<lparr>tracks := tr2, localScreenTrack := l2\<rparr>"
    by (simp add: e f)
  moreover have "\<forall>t' \<in> set (t # ts). readyState (tr2 t') = ended"
    using t1 t2 k2 by simp
  moreover have "\<forall>u. readyState (tracks s u) = ended \<longrightarrow> readyState (tr2 u) = ended"
    using k1 k2 by simp
  ultimately show ?case
    by blast
qed

lemma endStreams_no_peer:
  assumes "peer s = None"
  shows "\<exists>tr l. fold (\<lambda>sid s1. fold (\<lambda>t s2. dispatchEnded t (track_stop t s2)) (streamTracks s1 sid) s1) sids s
                  = s\<lparr>tracks := tr, localScreenTrack := l\<rparr> \<and>
           (\<forall>sid \<in> set sids. \<forall>t \<in> set (streamTracks s sid). readyState (tr t) = ended) \<and>
           (\<forall>u. readyState (tracks s u) = ended \<longrightarrow> readyState (tr u) = ended)"
  using assms
proof (induction sids arbitrary: s)
  case Nil
  have "s = s\<lparr>tracks := tracks s, localScreenTrack := localScreenTrack s\<rparr>"
    by simp
  then show ?case
    by (metis empty_iff empty_set fold_simps(1))
next
  case (Cons sid sids)
  from endTracks_no_peer [OF Cons.prems, of "streamTracks s sid"] obtain tr1 l1 where
    e: "fold (\<lambda>t s2. dispatchEnded t (track_stop t s2)) (streamTracks s sid) s
          = s\<lparr>tracks := tr1, localScreenTrack := l1\<rparr>"
    and t1: "\<forall>t \<in> set (streamTracks s sid). readyState (tr1 t) = ended"
    and k1: "\<forall>u. readyState (tracks s u) = ended \<longrightarrow> readyState (tr1 u) = ended"
    by blast
  let ?s1 = "s\<lparr>tracks := tr1, localScreenTrack := l1\<rparr>"
  have np1: "peer ?s1 = None"
    using Cons.prems by simp
  from Cons.IH [OF np1] obtain tr2 l2 where
    f: "fold (\<lambda>sid s1. fold (\<lambda>t s2. dispatchEnded t (track_stop t s2)) (streamTracks s1 sid) s1) sids ?s1
          = ?s1\<lparr>tracks := tr2, localScreenTrack := l2\<rparr>"
    and t2: "\<forall>sid \<in> set sids. \<forall>t \<in> set (streamTracks ?s1 sid). readyState (tr2 t) = ended"
    and k2: "\<forall>u. readyState (tracks ?s1 u) = ended \<longrightarrow> readyState (tr2 u) = ended"
    by blast
  have "fold (\<lambda>sid s1. fold (\<lambda>t s2. dispatchEnded t (track_stop t s2)) (streamTracks s1 sid) s1) (sid # sids) s
          = s\<lparr>tracks := tr2, localScreenTrack := l2\<rparr>"
    by (simp add: e f)
  moreover have "\<forall>sid' \<in> set (sid # sids). \<forall>t \<in> set (streamTracks s sid'). readyState (tr2 t) = ended"
    using t1 t2 k2 by simp
  moreover have "\<forall>u. readyState (tracks s u) = ended \<longrightarrow> readyState (tr2 u) = ended"
    using k1 k2 by simp
  ultimately show ?case
    by blast
qed

lemma cleanup_no_peer:
  assumes "peer s = None"
  shows "\<exists>tr l. cleanup s = s\<lparr>tracks := tr, localScreenTrack := l\<rparr> \<and>
           (\<forall>sid \<in> set (streams s). \<forall>t \<in> set (streamTracks s sid). readyState (tr t) = ended)"
  using endStreams_no_peer [OF assms, of "streams s"] unfolding cleanup_def by blast

lemma disconnect_closed:
  "closed s \<Longrightarrow>
   disconnect e s = do_fx [Log Debug ''disconnect'', Log Err ''client already disconnected''] s"
  by (simp add: disconnect_def Let_def logDebug_def logErr_def do_fx_fields)

lemma disconnect_open:
  assumes op: "\<not> closed s"
  shows "closed (disconnect e s)"
    and "peer (disconnect e s) = None"
    and "ws (disconnect e s) = None"
    and "fx (disconnect e s) =
           fx s @ [Log Debug ''disconnect''] @
           (if rtcMonitor s \<noteq> None then [MonitorStop] else []) @
           (if peer s \<noteq> None then [PeerGetStats, PeerDestroy] else []) @
           (if ws s \<noteq> None then [WsSend ''leave'' None, WsClose] else []) @
           [Emit (EvClose e)]"
    and "\<forall>sid \<in> set (streams s). \<forall>t \<in> set (streamTracks s sid).
           readyState (tracks (disconnect e s) t) = ended"
proof -
  define s0 where "s0 = logDebug ''disconnect'' s"
  define s1 where "s1 = (if rtcMonitor s0 \<noteq> None then do_fx [MonitorStop] s0 else s0)"
  define s2 where "s2 = s1\<lparr>closed := True\<rparr>"
  define s3 where "s3 = (if peer s2 \<noteq> None then (do_fx [PeerGetStats, PeerDestroy] s2)\<lparr>peer := None\<rparr> else s2)"
  define s4 where "s4 = cleanup s3"
  define s5 where "s5 = (if ws s4 \<noteq> None then (do_fx [WsSend ''leave'' None, WsClose] s4)\<lparr>ws := None\<rparr> else s4)"
  have d: "disconnect e s = emit (EvClose e) s5"
    using op unfolding disconnect_def Let_def s5_def s4_def s3_def s2_def s1_def s0_def
    by (simp add: logDebug_def do_fx_fields)
  have p3: "peer s3 = None" "ws s3 = ws s" "closed s3" "streams s3 = streams s"
    "streamTracks s3 = streamTracks s"
    "fx s3 = fx s @ [Log Debug ''disconnect''] @
       (if rtcMonitor s \<noteq> None then [MonitorStop] else []) @
       (if peer s \<noteq> None then [PeerGetStats, PeerDestroy] else [])"
    unfolding s3_def s2_def s1_def s0_def logDebug_def
    by (simp_all add: do_fx_fields)
  from cleanup_no_peer [OF p3(1)] obtain tr l where
    c: "s4 = s3\<lparr>tracks := tr, localScreenTrack := l\<rparr>"
    and en: "\<forall>sid \<in> set (streams s3). \<forall>t \<in> set (streamTracks s3 sid). readyState (tr t) = ended"
    unfolding s4_def by blast
  have p4: "peer s4 = None" "ws s4 = ws s" "closed s4" "tracks s4 = tr"
    "fx s4 = fx s3"
    by (simp_all add: c p3)
  show "closed (disconnect e s)"
    by (simp add: d emit_def s5_def p4 do_fx_fields)
  show "peer (disconnect e s) = None"
    by (simp add: d emit_def s5_def p4 do_fx_fields)
  show "ws (disconnect e s) = None"
    by (simp add: d emit_def s5_def p4 do_fx_fields)
  show "fx (disconnect e s) =
           fx s @ [Log Debug ''disconnect''] @
           (if rtcMonitor s \<noteq> None then [MonitorStop] else []) @
           (if peer s \<noteq> None then [PeerGetStats, PeerDestroy] else []) @
           (if ws s \<noteq> None then [WsSend ''leave'' None, WsClose] else []) @
           [Emit (EvClose e)]"
    by (simp add: d emit_def s5_def p4 p3 do_fx_fields)
  show "\<forall>sid \<in> set (streams s). \<forall>t \<in> set (streamTracks s sid).
           readyState (tracks (disconnect e s) t) = ended"
    using en by (simp add: d emit_def s5_def p4 p3 do_fx_fields)
qed

text \<open>
  C4 (as the code has it). On a client that is not yet closed, two calls of disconnect
  in a row run the teardown once: the trace gains, in this order, the monitor's stop (if
  there is a monitor), the peer's statistics request and destroy (if there is a peer),
  then, with every track of every stream ended, the \<open>leave\<close> message and the close of
  the websocket (if there is one), and one \<open>close\<close> event carrying the first call's
  error. The second call changes nothing but the log: it adds a debug line and the line
  "client already disconnected", which is logged at error level, and it does not throw.
\<close>

theorem disconnect_twice:
  assumes "\<not> closed s"
  shows "disconnect e2 (disconnect e1 s)
           = do_fx [Log Debug ''disconnect'', Log Err ''client already disconnected''] (disconnect e1 s) \<and>
         fx (disconnect e2 (disconnect e1 s)) =
           fx s @ [Log Debug ''disconnect''] @
           (if rtcMonitor s \<noteq> None then [MonitorStop] else []) @
           (if peer s \<noteq> None then [PeerGetStats, PeerDestroy] else []) @
           (if ws s \<noteq> None then [WsSend ''leave'' None, WsClose] else []) @
           [Emit (EvClose e1)] @
           [Log Debug ''disconnect'', Log Err ''client already disconnected''] \<and>
         closed (disconnect e1 s) \<and> peer (disconnect e1 s) = None \<and> ws (disconnect e1 s) = None \<and>
         (\<forall>sid \<in> set (streams s). \<forall>t \<in> set (streamTracks s sid).
            readyState (tracks (disconnect e1 s) t) = ended)"
proof -
  note o = disconnect_open [OF assms, of e1]
  have 2: "disconnect e2 (disconnect e1 s)
           = do_fx [Log Debug ''disconnect'', Log Err ''client already disconnected''] (disconnect e1 s)"
    by (rule disconnect_closed [OF o(1)])
  show ?thesis
    unfolding 2 using o by (simp add: do_fx_fields)
qed

theorem disconnect_twice_witness:
  "\<not> closed connectedClient \<and>
   fx (disconnect None (disconnect (Some rtcPeerErr) connectedClient)) =
     [Log Debug ''disconnect'', MonitorStop, PeerGetStats, PeerDestroy, WsSend ''leave'' None, WsClose,
      Emit (EvClose (Some rtcPeerErr)),
      Log Debug ''disconnect'', Log Err ''client already disconnected''] \<and>
   readyState (tracks (disconnect (Some rtcPeerErr) connectedClient) ''mic'') = ended"
proof -
  have h: "\<not> closed connectedClient"
    by (simp add: connectedClient_def newCallsClient_def)
  have f: "fx connectedClient = []" "rtcMonitor connectedClient \<noteq> None" "peer connectedClient \<noteq> None"
    "ws connectedClient \<noteq> None" "streams connectedClient = [''mic-stream'']"
    "streamTracks connectedClient ''mic-stream'' = [''mic'']"
    by (simp_all add: connectedClient_def newCallsClient_def)
  note t = disconnect_twice [OF h, of None "Some rtcPeerErr"]
  have a: "fx (disconnect None (disconnect (Some rtcPeerErr) connectedClient)) =
     [Log Debug ''disconnect'', MonitorStop, PeerGetStats, PeerDestroy, WsSend ''leave'' None, WsClose,
      Emit (EvClose (Some rtcPeerErr)),
      Log Debug ''disconnect'', Log Err ''client already disconnected'']"
    using t [THEN conjunct2, THEN conjunct1] f by simp
  have b: "readyState (tracks (disconnect (Some rtcPeerErr) connectedClient) ''mic'') = ended"
    using t [THEN conjunct2, THEN conjunct2, THEN conjunct2, THEN conjunct2, THEN conjunct2] f by simp
  from h a b show ?thesis
    by simp
qed

text \<open>
  The sentence of the specification, as worded, fails in two places. The line the second
  call logs goes through \<open>logErr\<close>: of the two lines it adds, none is a warning. And on
  a client that is already closed, two calls in a row run no teardown and emit no
  \<open>close\<close> event.
\<close>

theorem disconnect_twice_counterexample:
  "drop (length (fx (disconnect None connectedClient)))
        (fx (disconnect None (disconnect None connectedClient)))
     = [Log Debug ''disconnect'', Log Err ''client already disconnected''] \<and>
   closed (disconnect None connectedClient) \<and>
   drop (length (fx (disconnect None connectedClient)))
        (fx (disconnect None (disconnect None (disconnect None connectedClient))))
     = [Log Debug ''disconnect'', Log Err ''client already disconnected'',
        Log Debug ''disconnect'', Log Err ''client already disconnected'']"
proof -
  have h: "\<not> closed connectedClient"
    by (simp add: connectedClient_def newCallsClient_def)
  note o = disconnect_open(1) [OF h, of None]
  have 2: "disconnect None (disconnect None connectedClient)
      = do_fx [Log Debug ''disconnect'', Log Err ''client already disconnected''] (disconnect None connectedClient)"
    by (rule disconnect_closed [OF o])
  have c2: "closed (disconnect None (disconnect None connectedClient))"
    unfolding 2 using o by (simp add: do_fx_fields)
  have 3: "disconnect None (disconnect None (disconnect None connectedClient))
      = do_fx [Log Debug ''disconnect'', Log Err ''client already disconnected'']
          (disconnect None (disconnect None connectedClient))"
    by (rule disconnect_closed [OF c2])
  show ?thesis
    unfolding 3 unfolding 2 using o by (simp add: do_fx_fields)
qed

subsection \<open>Mute, then unmute\<close>

lemma set_enabled_fields:
  "peer (set_enabled t v s) = peer s"
  "ws (set_enabled t v s) = ws s"
  "fx (set_enabled t v s) = fx s"
  "audioTrack (set_enabled t v s) = audioTrack s"
  "stream (set_enabled t v s) = stream s"
  "voiceTrackAdded (set_enabled t v s) = voiceTrackAdded s"
  "rtcMonitor (set_enabled t v s) = rtcMonitor s"
  "enabled (tracks (set_enabled t v s) t) = v"
  by (simp_all add: set_enabled_def)

lemma mute_no_stream: "stream s = None \<Longrightarrow> mute s = s"
  by (simp add: mute_def split: option.splits)

lemma mute_frame:
  "peer (mute s) = peer s"
  "audioTrack (mute s) = audioTrack s"
  "stream (mute s) = stream s"
  "voiceTrackAdded (mute s) = voiceTrackAdded s"
  "rtcMonitor (mute s) = rtcMonitor s"
  "ws (mute s) = ws s"
  by (simp_all add: mute_def Let_def emit_def do_fx_fields set_enabled_fields split: option.splits)

lemma mute_fields:
  assumes "peer s = Some p" and "audioTrack s = Some t" and "stream s = Some st"
  shows "enabled (tracks (mute s) t) = False"
    and "fx (mute s) = fx s @ [Log Debug ''replacing track to peer'', PeerReplaceTrack t None, Emit EvMute] @
                       (if ws s \<noteq> None then [WsSend ''mute'' None] else [])"
  using assms
  by (simp_all add: mute_def Let_def emit_def do_fx_fields set_enabled_fields)

lemma unmute_with_track:
  assumes p: "peer s = Some p" and a: "audioTrack s = Some t"
  shows "\<exists>s'. unmute n b s = Some (Returned, s') \<and>
           enabled (tracks s' t) \<and> audioTrack s' = Some t \<and> peer s' = peer s \<and>
           voiceTrackAdded s' = (voiceTrackAdded s \<or> stream s \<noteq> None) \<and>
           fx s' = fx s @
             (if rtcMonitor s \<noteq> None then [MonitorClearCache] else []) @
             (if voiceTrackAdded s
              then [Log Debug ''replacing track to peer'', PeerReplaceTrack t (Some t)]
              else (case stream s of
                      Some st \<Rightarrow> [Log Debug ''adding track to peer'', PeerAddTrack t st]
                    | None \<Rightarrow> [])) @
             [Emit EvUnmute] @
             (if ws s \<noteq> None then [WsSend ''unmute'' None] else [])"
proof -
  define s2 where "s2 = (if rtcMonitor s \<noteq> None then do_fx [MonitorClearCache] s else s)"
  define s3 where "s3 = set_enabled t True
                             (if voiceTrackAdded s2
                              then do_fx [Log Debug ''replacing track to peer'',
                                          PeerReplaceTrack t (Some t)] s2
                              else (case stream s2 of
                                      Some st \<Rightarrow>
                                        (do_fx [Log Debug ''adding track to peer'', PeerAddTrack t st] s2)
                                          \<lparr>voiceTrackAdded := True\<rparr>
                                    | None \<Rightarrow> s2))"
  define s4 where "s4 = emit EvUnmute s3"
  define s5 where "s5 = (if ws s4 \<noteq> None then do_fx [WsSend ''unmute'' None] s4 else s4)"
  have f2: "audioTrack s2 = Some t" "voiceTrackAdded s2 = voiceTrackAdded s" "stream s2 = stream s"
    "peer s2 = peer s" "ws s2 = ws s"
    "fx s2 = fx s @ (if rtcMonitor s \<noteq> None then [MonitorClearCache] else [])"
    using a by (simp_all add: s2_def do_fx_fields)
  have u: "unmute n b s = Some (Returned, s5)"
    unfolding unmute_def Let_def
    by (simp only: p a f2(1) s2_def [symmetric] s3_def [symmetric] s4_def [symmetric] s5_def [symmetric]
          option.simps if_False prod.case completion.case)
  have f3: "enabled (tracks s3 t)" "audioTrack s3 = Some t" "peer s3 = peer s" "ws s3 = ws s"
    "voiceTrackAdded s3 = (voiceTrackAdded s \<or> stream s \<noteq> None)"
    "fx s3 = fx s2 @ (if voiceTrackAdded s
              then [Log Debug ''replacing track to peer'', PeerReplaceTrack t (Some t)]
              else (case stream s of
                      Some st \<Rightarrow> [Log Debug ''adding track to peer'', PeerAddTrack t st]
                    | None \<Rightarrow> []))"
    unfolding s3_def
    by (simp_all add: set_enabled_fields set_enabled_def do_fx_fields f2 split: option.split)
  have f5: "enabled (tracks s5 t)" "audioTrack s5 = Some t" "peer s5 = peer s"
    "voiceTrackAdded s5 = (voiceTrackAdded s \<or> stream s \<noteq> None)"
    "fx s5 = fx s3 @ [Emit EvUnmute] @ (if ws s \<noteq> None then [WsSend ''unmute'' None] else [])"
    unfolding s5_def s4_def emit_def
    by (simp_all add: do_fx_fields f3)
  show ?thesis
    using u f5 by (simp add: f3 f2)
qed

text \<open>
  C5. Take a client with a peer and an audio track \<open>t\<close>. Unmuting enables the track; it
  calls \<open>addTrack\<close> only if no track has been added yet (\<open>voiceTrackAdded\<close> is false, and
  a stream exists), and sets the flag then; with the flag set it calls \<open>replaceTrack\<close>
  with the track itself. So when the track has been added, mute followed by unmute ends
  with the track enabled, and what unmute calls on the peer is one \<open>replaceTrack\<close> and no
  \<open>addTrack\<close>; the mute before it had replaced the sender's track by null and disabled
  the track.
\<close>

theorem mute_unmute_replaces_track:
  assumes "peer s \<noteq> None" and "audioTrack s = Some t"
  shows "(\<exists>s'. unmute n b s = Some (Returned, s') \<and> enabled (tracks s' t) \<and>
            voiceTrackAdded s' = (voiceTrackAdded s \<or> stream s \<noteq> None) \<and>
            fx s' = fx s @
              (if rtcMonitor s \<noteq> None then [MonitorClearCache] else []) @
              (if voiceTrackAdded s
               then [Log Debug ''replacing track to peer'', PeerReplaceTrack t (Some t)]
               else (case stream s of
                       Some st \<Rightarrow> [Log Debug ''adding track to peer'', PeerAddTrack t st]
                     | None \<Rightarrow> [])) @
              [Emit EvUnmute] @
              (if ws s \<noteq> None then [WsSend ''unmute'' None] else [])) \<and>
         (voiceTrackAdded s \<longrightarrow>
            (\<exists>s'. unmute n b (mute s) = Some (Returned, s') \<and> enabled (tracks s' t) \<and>
               voiceTrackAdded s' \<and>
               fx s' = fx (mute s) @
                 (if rtcMonitor s \<noteq> None then [MonitorClearCache] else []) @
                 [Log Debug ''replacing track to peer'', PeerReplaceTrack t (Some t), Emit EvUnmute] @
                 (if ws s \<noteq> None then [WsSend ''unmute'' None] else [])) \<and>
            (stream s \<noteq> None \<longrightarrow>
               \<not> enabled (tracks (mute s) t) \<and>
               fx (mute s) = fx s @
                 [Log Debug ''replacing track to peer'', PeerReplaceTrack t None, Emit EvMute] @
                 (if ws s \<noteq> None then [WsSend ''mute'' None] else [])))"
proof -
  from assms obtain p where p: "peer s = Some p"
    by auto
  note a = assms(2)
  have 1: "\<exists>s'. unmute n b s = Some (Returned, s') \<and> enabled (tracks s' t) \<and>
            voiceTrackAdded s' = (voiceTrackAdded s \<or> stream s \<noteq> None) \<and>
            fx s' = fx s @
              (if rtcMonitor s \<noteq> None then [MonitorClearCache] else []) @
              (if voiceTrackAdded s
               then [Log Debug ''replacing track to peer'', PeerReplaceTrack t (Some t)]
               else (case stream s of
                       Some st \<Rightarrow> [Log Debug ''adding track to peer'', PeerAddTrack t st]
                     | None \<Rightarrow> [])) @
              [Emit EvUnmute] @
              (if ws s \<noteq> None then [WsSend ''unmute'' None] else [])"
    using unmute_with_track [OF p a, of n b] by blast
  have m: "peer (mute s) = Some p" "audioTrack (mute s) = Some t"
    "voiceTrackAdded (mute s) = voiceTrackAdded s" "rtcMonitor (mute s) = rtcMonitor s"
    "ws (mute s) = ws s"
    using p a by (simp_all add: mute_frame)
  have 2: "\<exists>s'. unmute n b (mute s) = Some (Returned, s') \<and> enabled (tracks s' t) \<and>
               voiceTrackAdded s' \<and>
               fx s' = fx (mute s) @
                 (if rtcMonitor s \<noteq> None then [MonitorClearCache] else []) @
                 [Log Debug ''replacing track to peer'', PeerReplaceTrack t (Some t), Emit EvUnmute] @
                 (if ws s \<noteq> None then [WsSend ''unmute'' None] else [])"
    if v: "voiceTrackAdded s"
  proof -
    from unmute_with_track [OF m(1) m(2), of n b] obtain s' where
      r: "unmute n b (mute s) = Some (Returned, s')" "enabled (tracks s' t)"
        "voiceTrackAdded s' = (voiceTrackAdded (mute s) \<or> stream (mute s) \<noteq> None)"
        "fx s' = fx (mute s) @
             (if rtcMonitor (mute s) \<noteq> None then [MonitorClearCache] else []) @
             (if voiceTrackAdded (mute s)
              then [Log Debug ''replacing track to peer'', PeerReplaceTrack t (Some t)]
              else (case stream (mute s) of
                      Some st \<Rightarrow> [Log Debug ''adding track to peer'', PeerAddTrack t st]
                    | None \<Rightarrow> [])) @
             [Emit EvUnmute] @
             (if ws (mute s) \<noteq> None then [WsSend ''unmute'' None] else [])"
      by blast
    have va: "voiceTrackAdded s'"
      using r(3) v by (simp add: m(3))
    have "(if voiceTrackAdded (mute s)
              then [Log Debug ''replacing track to peer'', PeerReplaceTrack t (Some t)]
              else (case stream (mute s) of
                      Some st \<Rightarrow> [Log Debug ''adding track to peer'', PeerAddTrack t st]
                    | None \<Rightarrow> []))
          = [Log Debug ''replacing track to peer'', PeerReplaceTrack t (Some t)]"
      using v by (simp add: m(3))
    with r(4) have tr: "fx s' = fx (mute s) @
                 (if rtcMonitor s \<noteq> None then [MonitorClearCache] else []) @
                 [Log Debug ''replacing track to peer'', PeerReplaceTrack t (Some t), Emit EvUnmute] @
                 (if ws s \<noteq> None then [WsSend ''unmute'' None] else [])"
      by (simp only: m(4,5) append.simps append_assoc)
    from r(1,2) va tr show ?thesis
      by (intro exI [of _ s'] conjI)
  qed
  have 3: "\<not> enabled (tracks (mute s) t) \<and>
               fx (mute s) = fx s @
                 [Log Debug ''replacing track to peer'', PeerReplaceTrack t None, Emit EvMute] @
                 (if ws s \<noteq> None then [WsSend ''mute'' None] else [])"
    if "stream s \<noteq> None"
  proof -
    from that obtain st where st: "stream s = Some st"
      by auto
    show ?thesis
      by (simp add: mute_fields [OF p a st])
  qed
  from 1 2 3 show ?thesis
    by blast
qed

lemma talkingClient_fields:
  "peer talkingClient \<noteq> None"
  "audioTrack talkingClient = Some ''mic''"
  "voiceTrackAdded talkingClient"
  "stream talkingClient \<noteq> None"
  "ws talkingClient \<noteq> None"
  "rtcMonitor talkingClient \<noteq> None"
  "fx talkingClient = []"
  by (simp_all add: talkingClient_def connectedClient_def newCallsClient_def)

theorem mute_unmute_replaces_track_witness:
  "peer talkingClient \<noteq> None \<and> audioTrack talkingClient = Some ''mic'' \<and>
   voiceTrackAdded talkingClient \<and> stream talkingClient \<noteq> None \<and>
   \<not> enabled (tracks (mute talkingClient) ''mic'') \<and>
   (\<exists>s'. unmute 0 (steadyBrowser []) (mute talkingClient) = Some (Returned, s') \<and>
         enabled (tracks s' ''mic'') \<and>
         fx s' = [Log Debug ''replacing track to peer'', PeerReplaceTrack ''mic'' None, Emit EvMute,
                  WsSend ''mute'' None, MonitorClearCache,
                  Log Debug ''replacing track to peer'', PeerReplaceTrack ''mic'' (Some ''mic''),
                  Emit EvUnmute, WsSend ''unmute'' None])"
proof -
  note f = talkingClient_fields
  note inst = mute_unmute_replaces_track [OF f(1) f(2), of 0 "steadyBrowser []"]
  note part2 = inst [THEN conjunct2, rule_format, OF f(3)]
  from part2 [THEN conjunct2, rule_format, OF f(4)]
  have m: "\<not> enabled (tracks (mute talkingClient) ''mic'')"
    and mfx: "fx (mute talkingClient)
                = [Log Debug ''replacing track to peer'', PeerReplaceTrack ''mic'' None, Emit EvMute,
                   WsSend ''mute'' None]"
    using f(5,7) by simp_all
  from part2 [THEN conjunct1] obtain s' where
    u: "unmute 0 (steadyBrowser []) (mute talkingClient) = Some (Returned, s')"
    and e: "enabled (tracks s' ''mic'')"
    and ufx: "fx s' = fx (mute talkingClient) @
                 (if rtcMonitor talkingClient \<noteq> None then [MonitorClearCache] else []) @
                 [Log Debug ''replacing track to peer'', PeerReplaceTrack ''mic'' (Some ''mic''), Emit EvUnmute] @
                 (if ws talkingClient \<noteq> None then [WsSend ''unmute'' None] else [])"
    by blast
  from ufx f(5,6) have "fx s' = [Log Debug ''replacing track to peer'', PeerReplaceTrack ''mic'' None, Emit EvMute,
                  WsSend ''mute'' None, MonitorClearCache,
                  Log Debug ''replacing track to peer'', PeerReplaceTrack ''mic'' (Some ''mic''),
                  Emit EvUnmute, WsSend ''unmute'' None]"
    by (simp add: mfx)
  with u e have "\<exists>s'. unmute 0 (steadyBrowser []) (mute talkingClient) = Some (Returned, s') \<and>
         enabled (tracks s' ''mic'') \<and>
         fx s' = [Log Debug ''replacing track to peer'', PeerReplaceTrack ''mic'' None, Emit EvMute,
                  WsSend ''mute'' None, MonitorClearCache,
                  Log Debug ''replacing track to peer'', PeerReplaceTrack ''mic'' (Some ''mic''),
                  Emit EvUnmute, WsSend ''unmute'' None]"
    by (intro exI [of _ s'] conjI)
  with f(1,2,3,4) m show ?thesis
    by (intro conjI)
qed

subsection \<open>Device fallback and return\<close>

lemma emitted_append: "emitted name (xs @ ys) = emitted name xs @ emitted name ys"
  by (induction name xs rule: emitted.induct) simp_all

lemma find_filter_or: "find P (filter (\<lambda>x. P x \<or> Q x) xs) = find P xs"
  by (induction xs) auto

lemma filter_or_no_match: "find P xs = None \<Longrightarrow> filter (\<lambda>x. P x \<or> Q x) xs = filter Q xs"
  by (induction xs) (auto split: if_splits)

lemma find_Some_in_filter: "find P xs = Some d \<Longrightarrow> d \<in> set (filter (\<lambda>x. P x \<or> Q x) xs)"
  by (induction xs) (auto split: if_splits)

text \<open>
  The matching policy of \<open>getSelectedAudioDevice\<close>: the first enumerated device with
  the persisted identifier if there is one; otherwise the device with the persisted
  label if exactly one device has it; otherwise none.
\<close>

lemma getSelectedAudioDevice_policy:
  assumes sel: "storedSelection deviceType s = (selId, selLabel)"
  shows "fst (getSelectedAudioDevice deviceType s) =
    (if selId = '''' then None
     else case find (\<lambda>d. deviceId d = selId) (devicesOf deviceType s) of
            Some d \<Rightarrow> Some d
          | None \<Rightarrow> (case filter (\<lambda>d. Some (label d) = selLabel) (devicesOf deviceType s) of
                       [d] \<Rightarrow> Some d
                     | _ \<Rightarrow> None))"
proof -
  define devs where "devs = devicesOf deviceType s"
  define F where "F = filter (\<lambda>dev. deviceId dev = selId \<or> Some (label dev) = selLabel) devs"
  have eq: "fst (getSelectedAudioDevice deviceType s) =
      (if selId = '''' then None
       else if length F > 1 then find (\<lambda>dev. deviceId dev = selId) F
       else if length F = 1 then Some (hd F) else None)"
    unfolding getSelectedAudioDevice_def Let_def sel prod.case F_def devs_def
    by (simp only: fst_conv if_distrib [of fst] cong: if_cong)
  have fF: "find (\<lambda>dev. deviceId dev = selId) F = find (\<lambda>dev. deviceId dev = selId) devs"
    unfolding F_def by (rule find_filter_or)
  show ?thesis
  proof (cases "find (\<lambda>d. deviceId d = selId) devs")
    case None
    then have FQ: "F = filter (\<lambda>d. Some (label d) = selLabel) devs"
      unfolding F_def by (rule filter_or_no_match)
    have "(if length F > 1 then None else if length F = 1 then Some (hd F) else None)
          = (case F of [d] \<Rightarrow> Some d | _ \<Rightarrow> None)"
      by (cases F; simp; cases "tl F"; simp)
    then show ?thesis
      unfolding eq fF None devs_def [symmetric] FQ [symmetric] by simp
  next
    case (Some d)
    from find_Some_in_filter [OF Some] have dF: "d \<in> set F"
      unfolding F_def .
    then have "F \<noteq> []"
      by auto
    have "(if length F > 1 then Some d else if length F = 1 then Some (hd F) else None) = Some d"
    proof (cases F)
      case Nil
      with dF show ?thesis by simp
    next
      case (Cons x xs)
      with dF show ?thesis by (cases xs) auto
    qed
    then show ?thesis
      unfolding eq fF Some devs_def [symmetric] by simp
  qed
qed

lemma setAudioOutputDevice_peer:
  assumes "peer s = Some p"
  shows "setAudioOutputDevice d False s
           = emit (EvDeviceChange (audioDevices s)) (s\<lparr>currentAudioOutputDevice := Some d\<rparr>)"
  using assms by (simp add: setAudioOutputDevice_def)

lemma setAudioInputDevice_swap:
  assumes p: "peer s = Some p" and a: "audioTrack s = Some old" and st: "stream s = Some st"
    and g: "getUserMedia b (calls s) (Some (deviceId d)) = Inr (sid, new)"
  shows "\<exists>s' es. setAudioInputDevice n b d False s = Some (Returned, s') \<and>
           currentAudioInputDevice s' = Some d \<and>
           currentAudioOutputDevice s' = currentAudioOutputDevice s \<and>
           audioTrack s' = Some new \<and>
           localStorage s' = localStorage s \<and>
           peer s' = peer s \<and> audioDevices s' = audioDevices s \<and>
           fx s' = fx s @ es \<and> emitted ''devicefallback'' es = []"
proof -
  define s3 where "s3 = emit (EvDeviceChange (audioDevices (s\<lparr>currentAudioInputDevice := Some d\<rparr>)))
                          (s\<lparr>currentAudioInputDevice := Some d\<rparr>)"
  define s4 where "s4 = track_stop old s3"
  define s8 where "s8 = set_enabled new (enabled (tracks s3 old))
      (stream_addTrack st new (stream_removeTrack st old
         ((newAudioStream sid new (s4\<lparr>calls := Suc (calls s4)\<rparr>))
            \<lparr>streams := streams (newAudioStream sid new (s4\<lparr>calls := Suc (calls s4)\<rparr>)) @ [sid]\<rparr>)))"
  define s9 where "s9 = (if enabled (tracks s3 old)
                         then (if voiceTrackAdded s8
                               then do_fx [Log Debug ''replacing track to peer'',
                                           PeerReplaceTrack old (Some new)] s8
                               else do_fx [Log Debug ''adding track to peer'',
                                           PeerAddTrack new st] s8)
                         else s8\<lparr>voiceTrackAdded := False\<rparr>)"
  have f3: "audioTrack s3 = Some old" "stream s3 = Some st" "calls s3 = calls s"
    "fx s3 = fx s @ [Emit (EvDeviceChange (audioDevices s))]"
    "currentAudioInputDevice s3 = Some d" "currentAudioOutputDevice s3 = currentAudioOutputDevice s"
    "localStorage s3 = localStorage s" "peer s3 = peer s" "audioDevices s3 = audioDevices s"
    unfolding s3_def emit_def using a st by (simp_all add: do_fx_fields)
  have f4: "calls s4 = calls s" "fx s4 = fx s3" "currentAudioInputDevice s4 = Some d"
    "currentAudioOutputDevice s4 = currentAudioOutputDevice s" "localStorage s4 = localStorage s"
    "peer s4 = peer s" "audioDevices s4 = audioDevices s"
    unfolding s4_def track_stop_def by (simp_all add: f3)
  have g4: "getUserMedia b (calls s4) (Some (deviceId d)) = Inr (sid, new)"
    using g by (simp add: f4)
  have r: "setAudioInputDevice n b d False s = Some (Returned, s9\<lparr>audioTrack := Some new\<rparr>)"
    unfolding setAudioInputDevice_def setAudioInputDevice_body_def Let_def
    by (simp only: p option.simps if_False s3_def [symmetric] f3(1,2) prod.case
          s4_def [symmetric] g4 sum.case s8_def [symmetric] s9_def [symmetric])
  have f8: "fx s8 = fx s3" "currentAudioInputDevice s8 = Some d"
    "currentAudioOutputDevice s8 = currentAudioOutputDevice s" "localStorage s8 = localStorage s"
    "peer s8 = peer s" "audioDevices s8 = audioDevices s"
    unfolding s8_def set_enabled_def stream_addTrack_def stream_removeTrack_def newAudioStream_def
    by (simp_all add: f4)
  have f9: "currentAudioInputDevice s9 = Some d"
    "currentAudioOutputDevice s9 = currentAudioOutputDevice s" "localStorage s9 = localStorage s"
    "\<exists>es. fx s9 = fx s3 @ es \<and> emitted ''devicefallback'' es = []"
    "peer s9 = peer s" "audioDevices s9 = audioDevices s"
    unfolding s9_def by (simp_all add: do_fx_fields f8)
  from f9(4) obtain es where es: "fx s9 = fx s3 @ es" "emitted ''devicefallback'' es = []"
    by blast
  have "fx (s9\<lparr>audioTrack := Some new\<rparr>) = fx s @ (Emit (EvDeviceChange (audioDevices s)) # es)"
    by (simp add: es f3)
  moreover have "emitted ''devicefallback'' (Emit (EvDeviceChange (audioDevices s)) # es) = []"
    by (simp add: es)
  ultimately show ?thesis
    using r f9(1,2,3,5,6) by (intro exI [of _ "s9\<lparr>audioTrack := Some new\<rparr>"] exI [of _ "Emit (EvDeviceChange (audioDevices s)) # es"]) simp
qed

lemma selectDevice_selects:
  assumes p: "peer x = Some p"
    and k: "deviceType = ''output'' \<or>
            deviceType = ''input'' \<and> audioTrack x \<noteq> None \<and> stream x \<noteq> None \<and>
              (\<exists>r. getUserMedia b (calls x) (Some (deviceId d)) = Inr r)"
  shows "\<exists>x' es. selectDevice (setAudioInputDevice n b) deviceType d x = Some (Returned, x') \<and>
           currentDeviceOf deviceType x' = Some d \<and>
           (deviceType = ''input'' \<longrightarrow> currentAudioOutputDevice x' = currentAudioOutputDevice x) \<and>
           (deviceType = ''output'' \<longrightarrow> currentAudioInputDevice x' = currentAudioInputDevice x) \<and>
           localStorage x' = localStorage x \<and> peer x' = peer x \<and> audioDevices x' = audioDevices x \<and>
           fx x' = fx x @ es \<and> emitted ''devicefallback'' es = []"
  using k
proof (elim disjE conjE exE)
  assume out: "deviceType = ''output''"
  let ?x' = "emit (EvDeviceChange (audioDevices x)) (x\<lparr>currentAudioOutputDevice := Some d\<rparr>)"
  have "selectDevice (setAudioInputDevice n b) deviceType d x = Some (Returned, ?x')"
    by (simp add: selectDevice_def out setAudioOutputDevice_peer [OF p])
  moreover have "currentDeviceOf deviceType ?x' = Some d" "localStorage ?x' = localStorage x"
    "currentAudioInputDevice ?x' = currentAudioInputDevice x"
    "peer ?x' = peer x" "audioDevices ?x' = audioDevices x"
    "fx ?x' = fx x @ [Emit (EvDeviceChange (audioDevices x))]"
    "emitted ''devicefallback'' [Emit (EvDeviceChange (audioDevices x))] = []"
    by (simp_all add: currentDeviceOf_def out emit_def do_fx_fields)
  ultimately show ?thesis
    using out by (intro exI [of _ ?x'] exI [of _ "[Emit (EvDeviceChange (audioDevices x))]"]) simp
next
  fix r
  assume inp: "deviceType = ''input''" and a: "audioTrack x \<noteq> None" and st: "stream x \<noteq> None"
    and g: "getUserMedia b (calls x) (Some (deviceId d)) = Inr r"
  from a st obtain old sm where os: "audioTrack x = Some old" "stream x = Some sm"
    by auto
  obtain sid new where r: "r = (sid, new)"
    by (cases r)
  from setAudioInputDevice_swap [OF p os g [unfolded r], of n] obtain x' es where
    x: "setAudioInputDevice n b d False x = Some (Returned, x')"
    "currentAudioInputDevice x' = Some d" "currentAudioOutputDevice x' = currentAudioOutputDevice x"
    "localStorage x' = localStorage x" "peer x' = peer x" "audioDevices x' = audioDevices x"
    "fx x' = fx x @ es" "emitted ''devicefallback'' es = []"
    by blast
  then show ?thesis
    using inp by (intro exI [of _ x'] exI [of _ es]) (simp add: selectDevice_def currentDeviceOf_def)
qed

lemma currentDeviceOf_do_fx: "currentDeviceOf deviceType (do_fx es s) = currentDeviceOf deviceType s"
  by (simp add: currentDeviceOf_def do_fx_fields)

lemma missing_iff:
  "list_ex (\<lambda>device. map_option deviceId (Some c) = Some (deviceId device)) devs
     = (deviceId c \<in> deviceId ` set devs)"
  by (auto simp: list_ex_iff)

lemma handleAudioDeviceFallback_falls_back:
  assumes p: "peer s = Some p"
    and k: "deviceType = ''output'' \<or>
            deviceType = ''input'' \<and> audioTrack s \<noteq> None \<and> stream s \<noteq> None \<and>
              (\<exists>r. getUserMedia b (calls s) (Some (deviceId d0)) = Inr r)"
    and cur: "currentDeviceOf deviceType s = Some c"
    and miss: "deviceId c \<notin> deviceId ` set (devicesOf deviceType s)"
    and devs: "devicesOf deviceType s = d0 # rest"
  shows "\<exists>s' es. handleAudioDeviceFallback n b deviceType s = Some (Returned, s') \<and>
           currentDeviceOf deviceType s' = Some d0 \<and>
           (deviceType = ''input'' \<longrightarrow> currentAudioOutputDevice s' = currentAudioOutputDevice s) \<and>
           (deviceType = ''output'' \<longrightarrow> currentAudioInputDevice s' = currentAudioInputDevice s) \<and>
           localStorage s' = localStorage s \<and> peer s' = peer s \<and> audioDevices s' = audioDevices s \<and>
           fx s' = fx s @ es \<and> emitted ''devicefallback'' es = [EvDeviceFallback d0]"
proof -
  define m where "m = ''selected audio '' @ deviceType @ '' device not available, falling back to system default''"
  define s1 where "s1 = do_fx [Log Debug m] s"
  have p1: "peer s1 = Some p"
    by (simp add: s1_def do_fx_fields p)
  have k1: "deviceType = ''output'' \<or>
            deviceType = ''input'' \<and> audioTrack s1 \<noteq> None \<and> stream s1 \<noteq> None \<and>
              (\<exists>r. getUserMedia b (calls s1) (Some (deviceId d0)) = Inr r)"
    using k by (simp add: s1_def do_fx_fields)
  from selectDevice_selects [OF p1 k1, of n] obtain x' es where
    x: "selectDevice (setAudioInputDevice n b) deviceType d0 s1 = Some (Returned, x')"
    and c: "currentDeviceOf deviceType x' = Some d0" and l: "localStorage x' = localStorage s1"
    and o: "deviceType = ''input'' \<longrightarrow> currentAudioOutputDevice x' = currentAudioOutputDevice s1"
      "deviceType = ''output'' \<longrightarrow> currentAudioInputDevice x' = currentAudioInputDevice s1"
    and pa: "peer x' = peer s1" "audioDevices x' = audioDevices s1"
    and f: "fx x' = fx s1 @ es" and e: "emitted ''devicefallback'' es = []"
    by blast
  have ml: "\<not> list_ex (\<lambda>device. map_option deviceId (Some c) = Some (deviceId device)) (d0 # rest)"
    using miss unfolding devs missing_iff .
  have h: "handleAudioDeviceFallback n b deviceType s = Some (Returned, emit (EvDeviceFallback d0) x')"
    unfolding handleAudioDeviceFallback_def handleAudioDeviceFallback_body_def Let_def
      cur devs logDebug_def m_def [symmetric] s1_def [symmetric]
    by (simp only: ml if_True not_False_eq_True list.case x option.case prod.case completion.case)
  have "currentDeviceOf deviceType (emit (EvDeviceFallback d0) x') = Some d0"
    using c by (simp add: emit_def currentDeviceOf_do_fx)
  moreover have "localStorage (emit (EvDeviceFallback d0) x') = localStorage s"
    "peer (emit (EvDeviceFallback d0) x') = peer s"
    "audioDevices (emit (EvDeviceFallback d0) x') = audioDevices s"
    using l pa by (simp_all add: emit_def do_fx_fields s1_def)
  moreover have "deviceType = ''input'' \<longrightarrow>
      currentAudioOutputDevice (emit (EvDeviceFallback d0) x') = currentAudioOutputDevice s"
    "deviceType = ''output'' \<longrightarrow>
      currentAudioInputDevice (emit (EvDeviceFallback d0) x') = currentAudioInputDevice s"
    using o by (simp_all add: emit_def do_fx_fields s1_def)
  moreover have "fx (emit (EvDeviceFallback d0) x') = fx s @ (Log Debug m # es @ [Emit (EvDeviceFallback d0)])"
    using f by (simp add: emit_def do_fx_fields s1_def)
  moreover have "emitted ''devicefallback'' (Log Debug m # es @ [Emit (EvDeviceFallback d0)]) = [EvDeviceFallback d0]"
    using e by (simp add: emitted_append)
  ultimately show ?thesis
    using h by blast
qed

lemma second_branch:
  assumes "deviceId c \<in> deviceId ` set devs \<or> devs = []"
  shows "(if \<not> list_ex (\<lambda>device. map_option deviceId (Some c) = Some (deviceId device)) devs
          then devs else []) = []"
  using assms unfolding missing_iff by auto

lemma handleAudioDeviceFallback_switches_back:
  assumes p: "peer s = Some p"
    and k: "deviceType = ''output'' \<or>
            deviceType = ''input'' \<and> audioTrack s \<noteq> None \<and> stream s \<noteq> None \<and>
              (\<exists>r. getUserMedia b (calls s) (Some (deviceId d)) = Inr r)"
    and cur: "currentDeviceOf deviceType s = Some c"
    and present: "deviceId c \<in> deviceId ` set (devicesOf deviceType s) \<or> devicesOf deviceType s = []"
    and sel: "fst (getSelectedAudioDevice deviceType s) = Some d"
    and diff: "label d \<noteq> label c"
  shows "\<exists>s' es. handleAudioDeviceFallback n b deviceType s = Some (Returned, s') \<and>
           currentDeviceOf deviceType s' = Some d \<and>
           (deviceType = ''input'' \<longrightarrow> currentAudioOutputDevice s' = currentAudioOutputDevice s) \<and>
           (deviceType = ''output'' \<longrightarrow> currentAudioInputDevice s' = currentAudioInputDevice s) \<and>
           localStorage s' = localStorage s \<and> peer s' = peer s \<and> audioDevices s' = audioDevices s \<and>
           fx s' = fx s @ es \<and> emitted ''devicefallback'' es = [EvDeviceFallback d]"
proof -
  from getSelectedAudioDevice_logs [of deviceType s "''devicefallback''"] obtain es0 where
    g0: "snd (getSelectedAudioDevice deviceType s) = do_fx es0 s"
    and e0: "emitted ''devicefallback'' es0 = []"
    by blast
  from sel g0 have g: "getSelectedAudioDevice deviceType s = (Some d, do_fx es0 s)"
    by (simp add: prod_eq_iff)
  define m where "m = ''selected audio '' @ deviceType @ '' device is back, switching''"
  define s2 where "s2 = do_fx [Log Debug m] (do_fx es0 s)"
  have p2: "peer s2 = Some p"
    by (simp add: s2_def do_fx_fields p)
  have k2: "deviceType = ''output'' \<or>
            deviceType = ''input'' \<and> audioTrack s2 \<noteq> None \<and> stream s2 \<noteq> None \<and>
              (\<exists>r. getUserMedia b (calls s2) (Some (deviceId d)) = Inr r)"
    using k by (simp add: s2_def do_fx_fields)
  from selectDevice_selects [OF p2 k2, of n] obtain x' es where
    x: "selectDevice (setAudioInputDevice n b) deviceType d s2 = Some (Returned, x')"
    and c: "currentDeviceOf deviceType x' = Some d" and l: "localStorage x' = localStorage s2"
    and o: "deviceType = ''input'' \<longrightarrow> currentAudioOutputDevice x' = currentAudioOutputDevice s2"
      "deviceType = ''output'' \<longrightarrow> currentAudioInputDevice x' = currentAudioInputDevice s2"
    and pa: "peer x' = peer s2" "audioDevices x' = audioDevices s2"
    and f: "fx x' = fx s2 @ es" and e: "emitted ''devicefallback'' es = []"
    by blast
  note br = second_branch [OF present]
  have lb: "Some (label d) \<noteq> map_option label (Some c)"
    using diff by simp
  have h: "handleAudioDeviceFallback n b deviceType s = Some (Returned, emit (EvDeviceFallback d) x')"
    unfolding handleAudioDeviceFallback_def handleAudioDeviceFallback_body_def Let_def
      cur g logDebug_def m_def [symmetric]
    by (simp only: br list.case prod.case option.case
          lb not_False_eq_True if_True s2_def [symmetric] x completion.case)
  have "currentDeviceOf deviceType (emit (EvDeviceFallback d) x') = Some d"
    using c by (simp add: emit_def currentDeviceOf_do_fx)
  moreover have "localStorage (emit (EvDeviceFallback d) x') = localStorage s"
    "peer (emit (EvDeviceFallback d) x') = peer s"
    "audioDevices (emit (EvDeviceFallback d) x') = audioDevices s"
    using l pa by (simp_all add: emit_def do_fx_fields s2_def)
  moreover have "deviceType = ''input'' \<longrightarrow>
      currentAudioOutputDevice (emit (EvDeviceFallback d) x') = currentAudioOutputDevice s"
    "deviceType = ''output'' \<longrightarrow>
      currentAudioInputDevice (emit (EvDeviceFallback d) x') = currentAudioInputDevice s"
    using o by (simp_all add: emit_def do_fx_fields s2_def)
  moreover have "fx (emit (EvDeviceFallback d) x') = fx s @ (es0 @ Log Debug m # es @ [Emit (EvDeviceFallback d)])"
    using f by (simp add: emit_def do_fx_fields s2_def)
  moreover have "emitted ''devicefallback'' (es0 @ Log Debug m # es @ [Emit (EvDeviceFallback d)]) = [EvDeviceFallback d]"
    using e e0 by (simp add: emitted_append)
  ultimately show ?thesis
    using h by blast
qed

lemma handleAudioDeviceFallback_stays:
  assumes cur: "currentDeviceOf deviceType s = Some c"
    and present: "deviceId c \<in> deviceId ` set (devicesOf deviceType s) \<or> devicesOf deviceType s = []"
    and sel: "map_option label (fst (getSelectedAudioDevice deviceType s)) \<in> {None, Some (label c)}"
  shows "\<exists>es. handleAudioDeviceFallback n b deviceType s = Some (Returned, do_fx es s) \<and>
           emitted ''devicefallback'' es = []"
proof -
  from getSelectedAudioDevice_logs [of deviceType s "''devicefallback''"] obtain es0 where
    g0: "snd (getSelectedAudioDevice deviceType s) = do_fx es0 s"
    and e0: "emitted ''devicefallback'' es0 = []"
    by blast
  obtain r where g: "getSelectedAudioDevice deviceType s = (r, do_fx es0 s)"
    using g0 by (cases "getSelectedAudioDevice deviceType s") simp
  from sel g have r: "r = None \<or> (\<exists>d. r = Some d \<and> label d = label c)"
    by (cases r) auto
  note br = second_branch [OF present]
  have h: "handleAudioDeviceFallback n b deviceType s = Some (Returned, do_fx es0 s)"
  proof (cases r)
    case None
    show ?thesis
      unfolding handleAudioDeviceFallback_def handleAudioDeviceFallback_body_def Let_def cur g None
      by (simp only: br list.case prod.case option.case)
  next
    case (Some d)
    with r have "label d = label c"
      by simp
    then have lb: "(Some (label d) = map_option label (Some c)) = True"
      by simp
    show ?thesis
      unfolding handleAudioDeviceFallback_def handleAudioDeviceFallback_body_def Let_def cur g Some
      by (simp only: br not_True_eq_False if_False list.case prod.case option.case lb)
  qed
  with e0 show ?thesis
    by blast
qed

text \<open>
  The persisted device, as written out, is what \<open>getSelectedAudioDevice\<close> returns.
\<close>

lemma getSelectedAudioDevice_persisted:
  "fst (getSelectedAudioDevice deviceType s) = persistedDevice deviceType s"
proof -
  obtain selId selLabel where sel: "storedSelection deviceType s = (selId, selLabel)"
    by (rule prod.exhaust)
  show ?thesis
    unfolding persistedDevice_def sel prod.case by (rule getSelectedAudioDevice_policy [OF sel])
qed

text \<open>
  One run of \<open>handleAudioDeviceFallback\<close> for a kind moves the selection of the kind
  to the target of the rule, if there is one, and emits one event for it.
\<close>

lemma handleAudioDeviceFallback_target:
  assumes p: "peer s = Some pc"
    and knd: "deviceType = ''input'' \<or> deviceType = ''output''"
    and cur: "currentDeviceOf deviceType s = Some c"
    and cap: "\<And>d. deviceType = ''input'' \<Longrightarrow> fallbackTarget deviceType s = Some d \<Longrightarrow>
                audioTrack s \<noteq> None \<and> stream s \<noteq> None \<and>
                (\<exists>r. getUserMedia b (calls s) (Some (deviceId d)) = Inr r)"
  shows "\<exists>s' es. handleAudioDeviceFallback n b deviceType s = Some (Returned, s') \<and>
           currentDeviceOf deviceType s' =
             (case fallbackTarget deviceType s of None \<Rightarrow> Some c | Some d \<Rightarrow> Some d) \<and>
           (deviceType = ''input'' \<longrightarrow> currentAudioOutputDevice s' = currentAudioOutputDevice s) \<and>
           (deviceType = ''output'' \<longrightarrow> currentAudioInputDevice s' = currentAudioInputDevice s) \<and>
           localStorage s' = localStorage s \<and> peer s' = peer s \<and> audioDevices s' = audioDevices s \<and>
           fx s' = fx s @ es \<and>
           emitted ''devicefallback'' es =
             (case fallbackTarget deviceType s of None \<Rightarrow> [] | Some d \<Rightarrow> [EvDeviceFallback d])"
proof -
  have k: "deviceType = ''output'' \<or>
           deviceType = ''input'' \<and> audioTrack s \<noteq> None \<and> stream s \<noteq> None \<and>
             (\<exists>r. getUserMedia b (calls s) (Some (deviceId d)) = Inr r)"
    if "fallbackTarget deviceType s = Some d" for d
    using knd cap [OF _ that] by blast
  show ?thesis
  proof (cases "deviceId c \<notin> deviceId ` set (devicesOf deviceType s) \<and> devicesOf deviceType s \<noteq> []")
    case True
    then obtain d0 rest where devs: "devicesOf deviceType s = d0 # rest"
      by (cases "devicesOf deviceType s") auto
    have t: "fallbackTarget deviceType s = Some d0"
      using True by (simp add: fallbackTarget_def cur devs)
    from handleAudioDeviceFallback_falls_back [OF p k [OF t] cur conjunct1 [OF True] devs, of n]
    show ?thesis
      unfolding t by simp
  next
    case False
    then have present: "deviceId c \<in> deviceId ` set (devicesOf deviceType s) \<or> devicesOf deviceType s = []"
      by blast
    have t: "fallbackTarget deviceType s =
               (case persistedDevice deviceType s of None \<Rightarrow> None
                | Some d \<Rightarrow> if label d \<noteq> label c then Some d else None)"
      unfolding fallbackTarget_def cur option.case by (simp only: False if_False)
    show ?thesis
    proof (cases "\<exists>d. persistedDevice deviceType s = Some d \<and> label d \<noteq> label c")
      case True
      then obtain d where d: "persistedDevice deviceType s = Some d" and diff: "label d \<noteq> label c"
        by blast
      have t': "fallbackTarget deviceType s = Some d"
        unfolding t using d diff by simp
      have sel: "fst (getSelectedAudioDevice deviceType s) = Some d"
        unfolding getSelectedAudioDevice_persisted by (rule d)
      from handleAudioDeviceFallback_switches_back [OF p k [OF t'] cur present sel diff, of n]
      show ?thesis
        unfolding t' by simp
    next
      case stay: False
      then have t': "fallbackTarget deviceType s = None"
        unfolding t by (cases "persistedDevice deviceType s") auto
      from stay have "map_option label (fst (getSelectedAudioDevice deviceType s)) \<in> {None, Some (label c)}"
        unfolding getSelectedAudioDevice_persisted by (cases "persistedDevice deviceType s") auto
      from handleAudioDeviceFallback_stays [OF cur present this, of n b] obtain es where
        "handleAudioDeviceFallback n b deviceType s = Some (Returned, do_fx es s)"
        "emitted ''devicefallback'' es = []"
        by blast
      then show ?thesis
        unfolding t' using cur
        by (intro exI [of _ "do_fx es s"] exI [of _ es]) (simp add: do_fx_fields currentDeviceOf_do_fx)
    qed
  qed
qed

lemma fallbackTarget_cong:
  assumes "currentDeviceOf deviceType a = currentDeviceOf deviceType b"
    and "audioDevices a = audioDevices b" and "localStorage a = localStorage b"
  shows "fallbackTarget deviceType a = fallbackTarget deviceType b"
proof -
  have d: "devicesOf deviceType a = devicesOf deviceType b"
    using assms by (simp add: devicesOf_def)
  have "storedSelection deviceType a = storedSelection deviceType b"
    using assms by (simp add: storedSelection_def)
  then have "persistedDevice deviceType a = persistedDevice deviceType b"
    unfolding persistedDevice_def d by (rule arg_cong)
  then show ?thesis
    unfolding fallbackTarget_def d assms(1) by (rule arg_cong)
qed

text \<open>
  C6 (as the code has it). Let updateDevices run on a client with a peer, let the
  enumeration succeed and give \<open>devices\<close>, and, if the rule below gives a target for the
  input kind, let an audio track and a stream exist and the browser grant the capture
  from that target. Then updateDevices returns, the enumerated devices are the devices of
  the client, and for each of the two kinds, the input kind first and then the output
  kind: if the rule gives a target for the kind, the target becomes the current device
  of the kind and exactly one \<open>devicefallback\<close> event is emitted, carrying it; if it gives
  none, the current device of the kind stays and no such event is emitted. So the
  \<open>devicefallback\<close> events of the run are the one for the input target, if any, followed
  by the one for the output target, if any. The persisted preferences are left as they
  are.

  The rule (\<open>fallbackTarget\<close>, read on the client with the enumerated devices): for a kind
  with a current device, if the identifier of the current device is not enumerated and
  some device of the kind is, the target is the first enumerated device of the kind;
  otherwise it is the persisted device, when that is found and its label differs from the
  label of the current device; otherwise there is none. The persisted device
  (\<open>persistedDevice\<close>) is what getSelectedAudioDevice returns, in every client state: the
  first enumerated device with the persisted identifier if there is one; otherwise the
  device with the persisted label if exactly one enumerated device has it; otherwise
  none.
\<close>

theorem device_fallback_and_return:
  assumes enum: "enumerateDevices b (calls s) = Inr devices"
    and p: "peer s \<noteq> None"
    and cap: "\<forall>d. fallbackTarget ''input'' (withDevices devices s) = Some d \<longrightarrow>
                audioTrack s \<noteq> None \<and> stream s \<noteq> None \<and>
                (\<exists>r. getUserMedia b (Suc (calls s)) (Some (deviceId d)) = Inr r)"
  shows "(\<exists>s' es. updateDevices n b s = Some s' \<and> fx s' = fx s @ es \<and>
            audioDevices s' = audioDevices (withDevices devices s) \<and>
            currentAudioInputDevice s' =
              (case fallbackTarget ''input'' (withDevices devices s) of
                 None \<Rightarrow> currentAudioInputDevice s | Some d \<Rightarrow> Some d) \<and>
            currentAudioOutputDevice s' =
              (case fallbackTarget ''output'' (withDevices devices s) of
                 None \<Rightarrow> currentAudioOutputDevice s | Some d \<Rightarrow> Some d) \<and>
            emitted ''devicefallback'' es =
              (case fallbackTarget ''input'' (withDevices devices s) of
                 None \<Rightarrow> [] | Some d \<Rightarrow> [EvDeviceFallback d]) @
              (case fallbackTarget ''output'' (withDevices devices s) of
                 None \<Rightarrow> [] | Some d \<Rightarrow> [EvDeviceFallback d]) \<and>
            localStorage s' = localStorage s) \<and>
         fst (getSelectedAudioDevice deviceType x) = persistedDevice deviceType x"
proof (rule conjI)
  from p obtain pc where pc: "peer s = Some pc"
    by auto
  define s0 where "s0 = logDebug ''a/v device change detected'' s"
  define s1 where "s1 = s0\<lparr>calls := Suc (calls s0),
      audioDevices := \<lparr>inputs = filter (\<lambda>device. kind device = audioinput) devices,
                        outputs = filter (\<lambda>device. kind device = audiooutput) devices\<rparr>\<rparr>"
  define sE where "sE = withDevices devices s"
  define tin where "tin = fallbackTarget ''input'' sE"
  define tout where "tout = fallbackTarget ''output'' sE"
  have enum0: "enumerateDevices b (calls s0) = Inr devices"
    using enum by (simp add: s0_def logDebug_def do_fx_fields)
  have f1: "peer s1 = Some pc" "currentAudioInputDevice s1 = currentAudioInputDevice s"
    "currentAudioOutputDevice s1 = currentAudioOutputDevice s" "audioDevices s1 = audioDevices sE"
    "localStorage s1 = localStorage s" "calls s1 = Suc (calls s)" "audioTrack s1 = audioTrack s"
    "stream s1 = stream s" "fx s1 = fx s @ [Log Debug ''a/v device change detected'']"
    by (simp_all add: s1_def s0_def logDebug_def do_fx_fields do_fx_def sE_def withDevices_def pc)
  have fE: "currentAudioInputDevice sE = currentAudioInputDevice s"
    "currentAudioOutputDevice sE = currentAudioOutputDevice s" "localStorage sE = localStorage s"
    by (simp_all add: sE_def withDevices_def)
  have tin1: "fallbackTarget ''input'' s1 = tin"
    unfolding tin_def by (rule fallbackTarget_cong) (simp_all add: f1 fE currentDeviceOf_def)
  have "\<exists>s2 es2.
      (if currentAudioInputDevice s1 \<noteq> None then handleAudioDeviceFallback n b ''input'' s1
       else Some (Returned, s1)) = Some (Returned, s2) \<and>
      currentAudioInputDevice s2 = (case tin of None \<Rightarrow> currentAudioInputDevice s | Some d \<Rightarrow> Some d) \<and>
      currentAudioOutputDevice s2 = currentAudioOutputDevice s \<and>
      localStorage s2 = localStorage s \<and> peer s2 = Some pc \<and> audioDevices s2 = audioDevices sE \<and>
      fx s2 = fx s1 @ es2 \<and>
      emitted ''devicefallback'' es2 = (case tin of None \<Rightarrow> [] | Some d \<Rightarrow> [EvDeviceFallback d])"
  proof (cases "currentAudioInputDevice s")
    case None
    then have "tin = None"
      unfolding tin1 [symmetric] by (simp add: fallbackTarget_def currentDeviceOf_def f1)
    with None show ?thesis
      by (intro exI [of _ s1] exI [of _ "[]"]) (simp add: f1)
  next
    case (Some c)
    have cur: "currentDeviceOf ''input'' s1 = Some c"
      by (simp add: currentDeviceOf_def f1 Some)
    have c1: "audioTrack s1 \<noteq> None \<and> stream s1 \<noteq> None \<and>
              (\<exists>r. getUserMedia b (calls s1) (Some (deviceId d)) = Inr r)"
      if "fallbackTarget ''input'' s1 = Some d" for d
      using cap [rule_format, of d] that unfolding tin1 tin_def sE_def f1 by simp
    from handleAudioDeviceFallback_target [OF f1(1) _ cur c1, of n] obtain s2 es2 where
      "handleAudioDeviceFallback n b ''input'' s1 = Some (Returned, s2)"
      "currentDeviceOf ''input'' s2 = (case fallbackTarget ''input'' s1 of None \<Rightarrow> Some c | Some d \<Rightarrow> Some d)"
      "currentAudioOutputDevice s2 = currentAudioOutputDevice s1"
      "localStorage s2 = localStorage s1" "peer s2 = peer s1" "audioDevices s2 = audioDevices s1"
      "fx s2 = fx s1 @ es2"
      "emitted ''devicefallback'' es2 =
         (case fallbackTarget ''input'' s1 of None \<Rightarrow> [] | Some d \<Rightarrow> [EvDeviceFallback d])"
      by auto
    then show ?thesis
      unfolding tin1 using Some
      by (intro exI [of _ s2] exI [of _ es2]) (simp add: f1 currentDeviceOf_def cong: option.case_cong)
  qed
  then obtain s2 es2 where
    r2: "(if currentAudioInputDevice s1 \<noteq> None then handleAudioDeviceFallback n b ''input'' s1
          else Some (Returned, s1)) = Some (Returned, s2)"
    and f2: "currentAudioInputDevice s2 = (case tin of None \<Rightarrow> currentAudioInputDevice s | Some d \<Rightarrow> Some d)"
      "currentAudioOutputDevice s2 = currentAudioOutputDevice s"
      "localStorage s2 = localStorage s" "peer s2 = Some pc" "audioDevices s2 = audioDevices sE"
      "fx s2 = fx s1 @ es2"
    and e2: "emitted ''devicefallback'' es2 = (case tin of None \<Rightarrow> [] | Some d \<Rightarrow> [EvDeviceFallback d])"
    by blast
  have tout2: "fallbackTarget ''output'' s2 = tout"
    unfolding tout_def by (rule fallbackTarget_cong) (simp_all add: f2 fE currentDeviceOf_def)
  have "\<exists>s3 es3.
      (if currentAudioOutputDevice s2 \<noteq> None then handleAudioDeviceFallback n b ''output'' s2
       else Some (Returned, s2)) = Some (Returned, s3) \<and>
      currentAudioOutputDevice s3 = (case tout of None \<Rightarrow> currentAudioOutputDevice s | Some d \<Rightarrow> Some d) \<and>
      currentAudioInputDevice s3 = currentAudioInputDevice s2 \<and>
      localStorage s3 = localStorage s \<and> audioDevices s3 = audioDevices sE \<and>
      fx s3 = fx s2 @ es3 \<and>
      emitted ''devicefallback'' es3 = (case tout of None \<Rightarrow> [] | Some d \<Rightarrow> [EvDeviceFallback d])"
  proof (cases "currentAudioOutputDevice s")
    case None
    then have "tout = None"
      unfolding tout2 [symmetric] by (simp add: fallbackTarget_def currentDeviceOf_def f2)
    with None show ?thesis
      by (intro exI [of _ s2] exI [of _ "[]"]) (simp add: f2)
  next
    case (Some c)
    have cur: "currentDeviceOf ''output'' s2 = Some c"
      by (simp add: currentDeviceOf_def f2 Some)
    from handleAudioDeviceFallback_target [OF f2(4) _ cur, of b n] obtain s3 es3 where
      "handleAudioDeviceFallback n b ''output'' s2 = Some (Returned, s3)"
      "currentDeviceOf ''output'' s3 = (case fallbackTarget ''output'' s2 of None \<Rightarrow> Some c | Some d \<Rightarrow> Some d)"
      "currentAudioInputDevice s3 = currentAudioInputDevice s2"
      "localStorage s3 = localStorage s2" "audioDevices s3 = audioDevices s2"
      "fx s3 = fx s2 @ es3"
      "emitted ''devicefallback'' es3 =
         (case fallbackTarget ''output'' s2 of None \<Rightarrow> [] | Some d \<Rightarrow> [EvDeviceFallback d])"
      by auto
    then show ?thesis
      unfolding tout2 using Some
      by (intro exI [of _ s3] exI [of _ es3]) (simp add: f2 currentDeviceOf_def cong: option.case_cong)
  qed
  then obtain s3 es3 where
    r3: "(if currentAudioOutputDevice s2 \<noteq> None then handleAudioDeviceFallback n b ''output'' s2
          else Some (Returned, s2)) = Some (Returned, s3)"
    and f3: "currentAudioOutputDevice s3 = (case tout of None \<Rightarrow> currentAudioOutputDevice s | Some d \<Rightarrow> Some d)"
      "currentAudioInputDevice s3 = currentAudioInputDevice s2"
      "localStorage s3 = localStorage s" "audioDevices s3 = audioDevices sE"
      "fx s3 = fx s2 @ es3"
    and e3: "emitted ''devicefallback'' es3 = (case tout of None \<Rightarrow> [] | Some d \<Rightarrow> [EvDeviceFallback d])"
    by blast
  let ?s' = "emit (EvDeviceChange (audioDevices s3)) s3"
  let ?es = "Log Debug ''a/v device change detected'' # es2 @ es3 @ [Emit (EvDeviceChange (audioDevices s3))]"
  have run: "updateDevices n b s = Some ?s'"
    unfolding updateDevices_def updateDevices_body_def Let_def s0_def [symmetric]
    by (simp only: enum0 sum.case s1_def [symmetric] r2 option.case prod.case completion.case r3)
  have "fx ?s' = fx s @ ?es"
    by (simp add: emit_def do_fx_fields do_fx_def f3 f2 f1)
  moreover have "emitted ''devicefallback'' ?es =
      (case tin of None \<Rightarrow> [] | Some d \<Rightarrow> [EvDeviceFallback d]) @
      (case tout of None \<Rightarrow> [] | Some d \<Rightarrow> [EvDeviceFallback d])"
    by (simp add: emitted_append e2 e3)
  moreover have "audioDevices ?s' = audioDevices sE" "localStorage ?s' = localStorage s"
    "currentAudioInputDevice ?s' = (case tin of None \<Rightarrow> currentAudioInputDevice s | Some d \<Rightarrow> Some d)"
    "currentAudioOutputDevice ?s' = (case tout of None \<Rightarrow> currentAudioOutputDevice s | Some d \<Rightarrow> Some d)"
    by (simp_all add: emit_def do_fx_fields f3 f2)
  ultimately show "\<exists>s' es. updateDevices n b s = Some s' \<and> fx s' = fx s @ es \<and>
            audioDevices s' = audioDevices (withDevices devices s) \<and>
            currentAudioInputDevice s' =
              (case fallbackTarget ''input'' (withDevices devices s) of
                 None \<Rightarrow> currentAudioInputDevice s | Some d \<Rightarrow> Some d) \<and>
            currentAudioOutputDevice s' =
              (case fallbackTarget ''output'' (withDevices devices s) of
                 None \<Rightarrow> currentAudioOutputDevice s | Some d \<Rightarrow> Some d) \<and>
            emitted ''devicefallback'' es =
              (case fallbackTarget ''input'' (withDevices devices s) of
                 None \<Rightarrow> [] | Some d \<Rightarrow> [EvDeviceFallback d]) @
              (case fallbackTarget ''output'' (withDevices devices s) of
                 None \<Rightarrow> [] | Some d \<Rightarrow> [EvDeviceFallback d]) \<and>
            localStorage s' = localStorage s"
    using run unfolding tin_def tout_def sE_def
    by (intro exI [of _ ?s'] exI [of _ ?es]) simp
next
  show "fst (getSelectedAudioDevice deviceType x) = persistedDevice deviceType x"
    by (rule getSelectedAudioDevice_persisted)
qed

lemmas device_defs =
  updateDevices_def updateDevices_body_def
  handleAudioDeviceFallback_def handleAudioDeviceFallback_body_def selectDevice_def
  setAudioInputDevice_def setAudioInputDevice_body_def setAudioOutputDevice_def
  getSelectedAudioDevice_def storedSelection_def devicesOf_def currentDeviceOf_def
  logDebug_def logInfo_def logErr_def emit_def do_fx_def track_stop_def Let_def

lemmas rule_defs =
  fallbackTarget_def persistedDevice_def withDevices_def storedSelection_def devicesOf_def
  currentDeviceOf_def

lemmas example_defs =
  connectedClient_def joiningClient_def newCallsClient_def repluggedClient_def twinClient_def
  noTrackClient_def builtinMic_def usbMic_def speakers_def headphones_def
  headphonesTwin_def webcamMic_def steadyBrowser_def refusingBrowser_def

text \<open>
  Two runs of the theorem. The headset of the connected client is unplugged: the
  built-in microphone and the speakers take over, with one event each. The headset is
  plugged in again: both kinds switch back to it, with one event each.
\<close>

theorem device_fallback_and_return_witness:
  "enumerateDevices (steadyBrowser [builtinMic, speakers]) (calls connectedClient)
     = Inr [builtinMic, speakers] \<and>
   peer connectedClient \<noteq> None \<and> audioTrack connectedClient \<noteq> None \<and>
   currentAudioInputDevice connectedClient = Some usbMic \<and>
   currentAudioOutputDevice connectedClient = Some headphones \<and>
   fallbackTarget ''input'' (withDevices [builtinMic, speakers] connectedClient) = Some builtinMic \<and>
   fallbackTarget ''output'' (withDevices [builtinMic, speakers] connectedClient) = Some speakers \<and>
   (\<exists>s' es. updateDevices 0 (steadyBrowser [builtinMic, speakers]) connectedClient = Some s' \<and>
            fx s' = fx connectedClient @ es \<and>
            currentAudioInputDevice s' = Some builtinMic \<and>
            currentAudioOutputDevice s' = Some speakers \<and>
            emitted ''devicefallback'' es = [EvDeviceFallback builtinMic, EvDeviceFallback speakers] \<and>
            localStorage s' = localStorage connectedClient) \<and>
   enumerateDevices (steadyBrowser [builtinMic, usbMic, speakers, headphones]) (calls repluggedClient)
     = Inr [builtinMic, usbMic, speakers, headphones] \<and>
   peer repluggedClient \<noteq> None \<and>
   currentAudioInputDevice repluggedClient = Some builtinMic \<and>
   currentAudioOutputDevice repluggedClient = Some speakers \<and>
   fallbackTarget ''input'' (withDevices [builtinMic, usbMic, speakers, headphones] repluggedClient)
     = Some usbMic \<and>
   fallbackTarget ''output'' (withDevices [builtinMic, usbMic, speakers, headphones] repluggedClient)
     = Some headphones \<and>
   (\<exists>s' es. updateDevices 0 (steadyBrowser [builtinMic, usbMic, speakers, headphones]) repluggedClient
               = Some s' \<and>
            fx s' = fx repluggedClient @ es \<and>
            currentAudioInputDevice s' = Some usbMic \<and>
            currentAudioOutputDevice s' = Some headphones \<and>
            emitted ''devicefallback'' es = [EvDeviceFallback usbMic, EvDeviceFallback headphones] \<and>
            localStorage s' = localStorage repluggedClient)"
proof -
  let ?b1 = "steadyBrowser [builtinMic, speakers]"
  let ?d1 = "[builtinMic, speakers]"
  let ?b2 = "steadyBrowser [builtinMic, usbMic, speakers, headphones]"
  let ?d2 = "[builtinMic, usbMic, speakers, headphones]"
  have e1: "enumerateDevices ?b1 (calls connectedClient) = Inr ?d1"
    by (simp add: steadyBrowser_def)
  have p1: "peer connectedClient \<noteq> None" and a1: "audioTrack connectedClient \<noteq> None"
    and c1: "currentAudioInputDevice connectedClient = Some usbMic"
      "currentAudioOutputDevice connectedClient = Some headphones"
    by (simp_all add: connectedClient_def)
  have cap1: "\<forall>d. fallbackTarget ''input'' (withDevices ?d1 connectedClient) = Some d \<longrightarrow>
                audioTrack connectedClient \<noteq> None \<and> stream connectedClient \<noteq> None \<and>
                (\<exists>r. getUserMedia ?b1 (Suc (calls connectedClient)) (Some (deviceId d)) = Inr r)"
    by (simp add: connectedClient_def steadyBrowser_def)
  have t1: "fallbackTarget ''input'' (withDevices ?d1 connectedClient) = Some builtinMic"
    "fallbackTarget ''output'' (withDevices ?d1 connectedClient) = Some speakers"
    by (simp_all add: rule_defs example_defs)
  have r1: "\<exists>s' es. updateDevices 0 ?b1 connectedClient = Some s' \<and>
            fx s' = fx connectedClient @ es \<and>
            currentAudioInputDevice s' = Some builtinMic \<and>
            currentAudioOutputDevice s' = Some speakers \<and>
            emitted ''devicefallback'' es = [EvDeviceFallback builtinMic, EvDeviceFallback speakers] \<and>
            localStorage s' = localStorage connectedClient"
    using device_fallback_and_return [OF e1 p1 cap1, of 0, THEN conjunct1]
    unfolding t1 option.case append_Cons append_Nil
    by (elim exE conjE) (intro exI conjI, assumption+)
  have e2: "enumerateDevices ?b2 (calls repluggedClient) = Inr ?d2"
    by (simp add: steadyBrowser_def)
  have p2: "peer repluggedClient \<noteq> None"
    and c2: "currentAudioInputDevice repluggedClient = Some builtinMic"
      "currentAudioOutputDevice repluggedClient = Some speakers"
    by (simp_all add: repluggedClient_def connectedClient_def)
  have cap2: "\<forall>d. fallbackTarget ''input'' (withDevices ?d2 repluggedClient) = Some d \<longrightarrow>
                audioTrack repluggedClient \<noteq> None \<and> stream repluggedClient \<noteq> None \<and>
                (\<exists>r. getUserMedia ?b2 (Suc (calls repluggedClient)) (Some (deviceId d)) = Inr r)"
    by (simp add: repluggedClient_def connectedClient_def steadyBrowser_def)
  have t2: "fallbackTarget ''input'' (withDevices ?d2 repluggedClient) = Some usbMic"
    "fallbackTarget ''output'' (withDevices ?d2 repluggedClient) = Some headphones"
    by (simp_all add: rule_defs example_defs)
  have r2: "\<exists>s' es. updateDevices 0 ?b2 repluggedClient = Some s' \<and>
            fx s' = fx repluggedClient @ es \<and>
            currentAudioInputDevice s' = Some usbMic \<and>
            currentAudioOutputDevice s' = Some headphones \<and>
            emitted ''devicefallback'' es = [EvDeviceFallback usbMic, EvDeviceFallback headphones] \<and>
            localStorage s' = localStorage repluggedClient"
    using device_fallback_and_return [OF e2 p2 cap2, of 0, THEN conjunct1]
    unfolding t2 option.case append_Cons append_Nil
    by (elim exE conjE) (intro exI conjI, assumption+)
  from e1 p1 a1 c1 t1 r1 e2 p2 c2 t2 r2 show ?thesis
    by (intro conjI)
qed

text \<open>
  The sentence of the specification, as worded, fails in four situations, each shown
  on one run of updateDevices. Without a peer (the headset unplugged before the join
  acknowledgement) an event is emitted for the first enumerated device of each kind,
  yet both selections stay with the unplugged headset. When the browser refuses the
  capture from the fallback microphone, the fallback of the input kind throws before it
  emits; updateDevices logs the error and skips the output kind, so that the output
  selection stays with the unplugged headset although the speakers are enumerated, and no
  \<open>devicefallback\<close> event goes out. When the persisted headset comes back while its twin
  with the same label is the current output device, it is found by its identifier and
  differs from the current device, yet nothing is switched and nothing is emitted,
  because the code compares labels. And when the client has no audio track, the setter
  runs \<open>initAudio\<close>, which selects the persisted device if it is enumerated: the event
  names the first enumerated microphone while the selection ends at the persisted
  headset.
\<close>

theorem device_fallback_and_return_counterexample:
  "updateDevices 0 (steadyBrowser [builtinMic, speakers]) joiningClient \<noteq> None \<and>
   currentAudioInputDevice joiningClient = Some usbMic \<and>
   currentAudioOutputDevice joiningClient = Some headphones \<and>
   audioDevices (the (updateDevices 0 (steadyBrowser [builtinMic, speakers]) joiningClient))
     = \<lparr>inputs = [builtinMic], outputs = [speakers]\<rparr> \<and>
   currentAudioInputDevice (the (updateDevices 0 (steadyBrowser [builtinMic, speakers]) joiningClient))
     = Some usbMic \<and>
   currentAudioOutputDevice (the (updateDevices 0 (steadyBrowser [builtinMic, speakers]) joiningClient))
     = Some headphones \<and>
   emitted ''devicefallback''
     (fx (the (updateDevices 0 (steadyBrowser [builtinMic, speakers]) joiningClient)))
     = [EvDeviceFallback builtinMic, EvDeviceFallback speakers] \<and>
   updateDevices 0 refusingBrowser connectedClient \<noteq> None \<and>
   currentAudioOutputDevice connectedClient = Some headphones \<and>
   audioDevices (the (updateDevices 0 refusingBrowser connectedClient))
     = \<lparr>inputs = [builtinMic], outputs = [speakers]\<rparr> \<and>
   currentAudioOutputDevice (the (updateDevices 0 refusingBrowser connectedClient)) = Some headphones \<and>
   emitted ''devicefallback'' (fx (the (updateDevices 0 refusingBrowser connectedClient))) = [] \<and>
   updateDevices 0 (steadyBrowser [builtinMic, usbMic, headphonesTwin, headphones]) twinClient \<noteq> None \<and>
   currentAudioOutputDevice twinClient = Some headphonesTwin \<and>
   fst (getSelectedAudioDevice ''output'' twinClient) = Some headphones \<and>
   headphones \<noteq> headphonesTwin \<and>
   currentAudioOutputDevice
     (the (updateDevices 0 (steadyBrowser [builtinMic, usbMic, headphonesTwin, headphones]) twinClient))
     = Some headphonesTwin \<and>
   emitted ''devicefallback''
     (fx (the (updateDevices 0 (steadyBrowser [builtinMic, usbMic, headphonesTwin, headphones]) twinClient)))
     = [] \<and>
   updateDevices (Suc 0) (steadyBrowser [webcamMic, usbMic, speakers, headphones]) noTrackClient \<noteq> None \<and>
   currentAudioInputDevice noTrackClient = Some builtinMic \<and>
   audioDevices (the (updateDevices (Suc 0) (steadyBrowser [webcamMic, usbMic, speakers, headphones])
                        noTrackClient))
     = \<lparr>inputs = [webcamMic, usbMic], outputs = [speakers, headphones]\<rparr> \<and>
   currentAudioInputDevice
     (the (updateDevices (Suc 0) (steadyBrowser [webcamMic, usbMic, speakers, headphones]) noTrackClient))
     = Some usbMic \<and>
   emitted ''devicefallback''
     (fx (the (updateDevices (Suc 0) (steadyBrowser [webcamMic, usbMic, speakers, headphones])
                 noTrackClient)))
     = [EvDeviceFallback webcamMic]"
proof -
  note run_defs = device_defs example_defs initAudio_body_def
    newAudioStream_def getAudioTracks_def set_enabled_def
  have a0: "currentAudioInputDevice joiningClient = Some usbMic"
    "currentAudioOutputDevice joiningClient = Some headphones"
    "currentAudioOutputDevice connectedClient = Some headphones"
    "currentAudioOutputDevice twinClient = Some headphonesTwin"
    "currentAudioInputDevice noTrackClient = Some builtinMic"
    "headphones \<noteq> headphonesTwin"
    by (simp_all add: example_defs)
  have a: "updateDevices 0 (steadyBrowser [builtinMic, speakers]) joiningClient
      = Some (joiningClient\<lparr>audioDevices := \<lparr>inputs = [builtinMic], outputs = [speakers]\<rparr>,
          calls := 1,
          fx := [Log Debug ''a/v device change detected'',
                 Log Debug ''selected audio input device not available, falling back to system default'',
                 Emit (EvDeviceFallback builtinMic),
                 Log Debug ''selected audio output device not available, falling back to system default'',
                 Emit (EvDeviceFallback speakers),
                 Emit (EvDeviceChange \<lparr>inputs = [builtinMic], outputs = [speakers]\<rparr>)]\<rparr>)"
    by (simp add: device_defs example_defs)
  have b: "updateDevices 0 refusingBrowser connectedClient \<noteq> None"
    "audioDevices (the (updateDevices 0 refusingBrowser connectedClient))
       = \<lparr>inputs = [builtinMic], outputs = [speakers]\<rparr>"
    "currentAudioOutputDevice (the (updateDevices 0 refusingBrowser connectedClient)) = Some headphones"
    "emitted ''devicefallback'' (fx (the (updateDevices 0 refusingBrowser connectedClient))) = []"
    by (simp_all add: device_defs example_defs)
  have c: "updateDevices 0 (steadyBrowser [builtinMic, usbMic, headphonesTwin, headphones]) twinClient
      = Some (twinClient\<lparr>calls := 1,
          fx := [Log Debug ''a/v device change detected'',
                 Log Debug ''getSelectedAudioDevice: found selected audio input device to use'',
                 Log Info ''getSelectedAudioDevice: multiple audio output devices found with the same label, checking by id'',
                 Emit (EvDeviceChange \<lparr>inputs = [builtinMic, usbMic],
                                        outputs = [headphonesTwin, headphones]\<rparr>)]\<rparr>)"
    by (simp add: device_defs example_defs)
  have c': "fst (getSelectedAudioDevice ''output'' twinClient) = Some headphones"
    by (simp add: device_defs example_defs)
  have d: "updateDevices (Suc 0) (steadyBrowser [webcamMic, usbMic, speakers, headphones]) noTrackClient \<noteq> None"
    "audioDevices (the (updateDevices (Suc 0) (steadyBrowser [webcamMic, usbMic, speakers, headphones])
                        noTrackClient))
       = \<lparr>inputs = [webcamMic, usbMic], outputs = [speakers, headphones]\<rparr>"
    "currentAudioInputDevice
       (the (updateDevices (Suc 0) (steadyBrowser [webcamMic, usbMic, speakers, headphones]) noTrackClient))
       = Some usbMic"
    "emitted ''devicefallback''
       (fx (the (updateDevices (Suc 0) (steadyBrowser [webcamMic, usbMic, speakers, headphones])
                   noTrackClient)))
       = [EvDeviceFallback webcamMic]"
    by (simp_all add: run_defs)
  have ac: "updateDevices 0 (steadyBrowser [builtinMic, speakers]) joiningClient \<noteq> None \<and>
   audioDevices (the (updateDevices 0 (steadyBrowser [builtinMic, speakers]) joiningClient))
     = \<lparr>inputs = [builtinMic], outputs = [speakers]\<rparr> \<and>
   currentAudioInputDevice (the (updateDevices 0 (steadyBrowser [builtinMic, speakers]) joiningClient))
     = Some usbMic \<and>
   currentAudioOutputDevice (the (updateDevices 0 (steadyBrowser [builtinMic, speakers]) joiningClient))
     = Some headphones \<and>
   emitted ''devicefallback''
     (fx (the (updateDevices 0 (steadyBrowser [builtinMic, speakers]) joiningClient)))
     = [EvDeviceFallback builtinMic, EvDeviceFallback speakers] \<and>
   updateDevices 0 (steadyBrowser [builtinMic, usbMic, headphonesTwin, headphones]) twinClient \<noteq> None \<and>
   currentAudioOutputDevice
     (the (updateDevices 0 (steadyBrowser [builtinMic, usbMic, headphonesTwin, headphones]) twinClient))
     = Some headphonesTwin \<and>
   emitted ''devicefallback''
     (fx (the (updateDevices 0 (steadyBrowser [builtinMic, usbMic, headphonesTwin, headphones]) twinClient)))
     = []"
    unfolding a c using a0 by simp
  from ac a0 b c' d show ?thesis
    by (simp only: simp_thms)
qed

end
